theory Spec2Isabelle
  imports Main "HOL-Library.Word"
begin

section \<open>certdb.c: the EFI security databases of pesigcheck\<close>

text \<open>
  A shallow embedding of \<^verbatim>\<open>src/certdb.c\<close>. Memory is bytes; a pointer into a buffer is
  modelled by the bytes from the pointee to the end of the buffer, so that pointer
  addition is \<^const>\<open>drop\<close> and a read of \<open>n\<close> bytes succeeds exactly when \<open>n\<close>
  bytes remain. What C leaves undefined (a read past the buffer, a division by zero, a
  call through a NULL handle) is a value of type \<open>fault\<close>; a loop that does not
  return is the value \<open>None\<close>.
\<close>

subsection \<open>Bytes, faults, fixed-width fields\<close>

type_synonym byte = "8 word"

datatype fault = OutOfBounds | DivByZero | NullDeref

text \<open>
  The structure declarations live in headers outside \<^verbatim>\<open>src/\<close>. The layout used here is
  the one of the UEFI structures the code overlays on the bytes:
  \<^verbatim>\<open>EFI_SIGNATURE_LIST = { efi_guid_t SignatureType; uint32_t SignatureListSize;
  uint32_t SignatureHeaderSize; uint32_t SignatureSize; }\<close> (28 bytes, little endian) and
  \<^verbatim>\<open>EFI_SIGNATURE_DATA = { efi_guid_t SignatureOwner; uint8_t SignatureData[]; }\<close>.
\<close>

type_synonym efi_guid_t = "byte list"

definition sizeof_efi_guid_t :: nat where
  "sizeof_efi_guid_t = 16"

definition sizeof_EFI_SIGNATURE_LIST :: nat where
  "sizeof_EFI_SIGNATURE_LIST = 28"

definition u32_max :: nat where
  "u32_max = 4294967296"

definition size_max :: nat where
  "size_max = 18446744073709551616"

fun le32 :: "byte list \<Rightarrow> nat" where
  "le32 (b0 # b1 # b2 # b3 # _) =
     unat b0 + 256 * unat b1 + 65536 * unat b2 + 16777216 * unat b3"
| "le32 _ = 0"

definition enc32 :: "nat \<Rightarrow> byte list" where
  "enc32 n = [of_nat (n mod 256), of_nat (n div 256 mod 256),
              of_nat (n div 65536 mod 256), of_nat (n div 16777216 mod 256)]"

text \<open>Reading a \<^verbatim>\<open>uint32_t\<close> field at byte offset \<open>off\<close> of the pointee.\<close>

definition read_u32 :: "nat \<Rightarrow> byte list \<Rightarrow> fault + nat" where
  "read_u32 off p =
     (if off + 4 \<le> length p then Inr (le32 (take 4 (drop off p))) else Inl OutOfBounds)"

text \<open>\<^verbatim>\<open>a - b\<close> on two \<^verbatim>\<open>uint32_t\<close> values.\<close>

definition sub_u32 :: "nat \<Rightarrow> nat \<Rightarrow> nat" where
  "sub_u32 a b = (a + u32_max - b) mod u32_max"

text \<open>
  \<^verbatim>\<open>memcmp(a, b, n) == 0\<close>: both operands are read for \<open>n\<close> bytes.
\<close>

definition memcmp_eq :: "byte list \<Rightarrow> byte list \<Rightarrow> nat \<Rightarrow> fault + bool" where
  "memcmp_eq a b n =
     (if length a < n \<or> length b < n then Inl OutOfBounds
      else Inr (take n a = take n b))"

subsection \<open>The data model\<close>

datatype db_specifier = DB | DBX

datatype db_f_type = DB_FILE | DB_EFIVAR | DB_CERT

datatype db_status = FOUND | NOT_FOUND

text \<open>
  \<^verbatim>\<open>struct dblist\<close> without its \<^verbatim>\<open>next\<close> link and file descriptor: a chain is a list, head
  first. \<open>mapped\<close> is the buffer behind \<^verbatim>\<open>db->map\<close>, \<open>data\<close> the bytes reachable from
  \<^verbatim>\<open>db->data\<close>; \<open>fsize\<close> (\<^verbatim>\<open>db->size\<close>) and \<open>datalen\<close> are the two \<^verbatim>\<open>size_t\<close> fields.
\<close>

record dblist =
  ftype :: db_f_type
  path :: string
  fsize :: nat
  mapped :: "byte list"
  datalen :: nat
  data :: "byte list"

text \<open>An NSS \<^verbatim>\<open>SECItem\<close>: a pointer and a 32-bit length.\<close>

record SECItem =
  item_data :: "byte list"
  item_len :: nat

text \<open>
  The part of \<^verbatim>\<open>pesigcheck_context\<close> the file uses: the two chains and the two digests
  \<^verbatim>\<open>cms_ctx->digests[0].pe_digest\<close> (SHA-256) and \<^verbatim>\<open>cms_ctx->digests[1].pe_digest\<close> (SHA-1).
\<close>

record pesigcheck_context =
  db :: "dblist list"
  dbx :: "dblist list"
  digest_sha256 :: "byte list"
  digest_sha1 :: "byte list"

text \<open>
  The three type identifiers come from the efivar library. Their bytes are the in-memory
  form of c1c41626-504c-4092-aca9-41f936934328, 826ca512-cf10-4ac9-b187-be01496631bd and
  a5c059a1-94e4-4aa7-87b5-ab155c2bf072.
\<close>

definition efi_guid_sha256 :: efi_guid_t where
  "efi_guid_sha256 = [0x26, 0x16, 0xc4, 0xc1, 0x4c, 0x50, 0x92, 0x40,
                      0xac, 0xa9, 0x41, 0xf9, 0x36, 0x93, 0x43, 0x28]"

definition efi_guid_sha1 :: efi_guid_t where
  "efi_guid_sha1 = [0x12, 0xa5, 0x6c, 0x82, 0x10, 0xcf, 0xc9, 0x4a,
                    0xb1, 0x87, 0xbe, 0x01, 0x49, 0x66, 0x31, 0xbd]"

definition efi_guid_x509_cert :: efi_guid_t where
  "efi_guid_x509_cert = [0xa1, 0x59, 0xc0, 0xa5, 0xe4, 0x94, 0xa7, 0x4a,
                         0x87, 0xb5, 0xab, 0x15, 0x5c, 0x2b, 0xf0, 0x72]"

subsection \<open>check_db: the walk over a chain\<close>

text \<open>
  A \<^verbatim>\<open>checkfn\<close> with \<^verbatim>\<open>ctx\<close> and \<^verbatim>\<open>pkcs7sig\<close> already supplied. The first argument is
  whatever the callback writes besides its result (diagnostics, for \<^verbatim>\<open>check_cert\<close>).
\<close>

type_synonym 's checkfn = "'s \<Rightarrow> SECItem \<Rightarrow> efi_guid_t \<Rightarrow> fault + (db_status \<times> 's)"

text \<open>
  The \<^verbatim>\<open>for\<close> loop of lines 234-249 over the \<open>certcount\<close> entries of one list; \<open>cert\<close>
  is the running \<^verbatim>\<open>EFI_SIGNATURE_DATA\<close> pointer.
\<close>

function check_sigs ::
  "'s checkfn \<Rightarrow> efi_guid_t \<Rightarrow> nat \<Rightarrow> nat \<Rightarrow> nat \<Rightarrow> byte list \<Rightarrow> 's
     \<Rightarrow> fault + (SECItem option \<times> 's)"
where
  "check_sigs check sigtype SignatureSize certcount i cert st =
     (if i < certcount then
        (let sig = \<lparr>item_data = drop sizeof_efi_guid_t cert,
                    item_len = sub_u32 SignatureSize sizeof_efi_guid_t\<rparr>
         in case check st sig sigtype of
              Inl f \<Rightarrow> Inl f
            | Inr (FOUND, st') \<Rightarrow> Inr (Some sig, st')
            | Inr (NOT_FOUND, st') \<Rightarrow>
                check_sigs check sigtype SignatureSize certcount (i + 1)
                  (drop SignatureSize cert) st')
      else Inr (None, st))"
  by pat_completeness auto
termination
  by (relation "measure (\<lambda>(check, sigtype, SignatureSize, certcount, i, cert, st).
        certcount - i)") auto

declare check_sigs.simps [simp del]

text \<open>How the inner \<^verbatim>\<open>while\<close> loop over one source ends.\<close>

datatype walk_end = Matched SECItem | Exhausted nat

text \<open>
  The \<^verbatim>\<open>while (dbsize > 0 && dbsize >= certlist->SignatureListSize)\<close> loop of lines
  226-254. \<open>Exhausted\<close> carries the value of \<^verbatim>\<open>dbsize\<close> when the loop is left.
\<close>

partial_function (option) check_lists ::
  "'s checkfn \<Rightarrow> nat \<Rightarrow> byte list \<Rightarrow> 's \<Rightarrow> (fault + (walk_end \<times> 's)) option"
where
  "check_lists check dbsize certlist st =
     (if dbsize = 0 then Some (Inr (Exhausted dbsize, st))
      else
        (case read_u32 16 certlist of
           Inl f \<Rightarrow> Some (Inl f)
         | Inr SignatureListSize \<Rightarrow>
             (if dbsize < SignatureListSize then Some (Inr (Exhausted dbsize, st))
              else
                (case read_u32 20 certlist of
                   Inl f \<Rightarrow> Some (Inl f)
                 | Inr SignatureHeaderSize \<Rightarrow>
                     (case read_u32 24 certlist of
                        Inl f \<Rightarrow> Some (Inl f)
                      | Inr SignatureSize \<Rightarrow>
                          (if SignatureSize = 0 then Some (Inl DivByZero)
                           else
                             (case check_sigs check (take sizeof_efi_guid_t certlist)
                                     SignatureSize
                                     (sub_u32 SignatureListSize SignatureHeaderSize
                                        div SignatureSize)
                                     0
                                     (drop (sizeof_EFI_SIGNATURE_LIST + SignatureHeaderSize)
                                        certlist)
                                     st of
                                Inl f \<Rightarrow> Some (Inl f)
                              | Inr (Some sig, st') \<Rightarrow> Some (Inr (Matched sig, st'))
                              | Inr (None, st') \<Rightarrow>
                                  check_lists check (dbsize - SignatureListSize)
                                    (drop SignatureListSize certlist) st')))))))"

text \<open>
  The outer \<^verbatim>\<open>while (dbl)\<close> loop. \<open>match\<close> says whether the caller passed a non-NULL
  \<^verbatim>\<open>match\<close> pointer; the item copied there is returned beside the status. The line
  \<^verbatim>\<open>Searching ...\<close> printed for each source is left out.
\<close>

fun check_dbl ::
  "'s checkfn \<Rightarrow> bool \<Rightarrow> dblist list \<Rightarrow> 's
     \<Rightarrow> (fault + (db_status \<times> SECItem option \<times> 's)) option"
where
  "check_dbl check match [] st = Some (Inr (NOT_FOUND, None, st))"
| "check_dbl check match (dbl # next) st =
     (case check_lists check (datalen dbl) (data dbl) st of
        None \<Rightarrow> None
      | Some (Inl f) \<Rightarrow> Some (Inl f)
      | Some (Inr (Matched sig, st')) \<Rightarrow>
          Some (Inr (FOUND, if match then Some sig else None, st'))
      | Some (Inr (Exhausted _, st')) \<Rightarrow> check_dbl check match next st')"

definition check_db ::
  "db_specifier \<Rightarrow> pesigcheck_context \<Rightarrow> 's checkfn \<Rightarrow> bool \<Rightarrow> 's
     \<Rightarrow> (fault + (db_status \<times> SECItem option \<times> 's)) option"
where
  "check_db which ctx check match st =
     check_dbl check match (if which = DB then db ctx else dbx ctx) st"

subsection \<open>check_hash\<close>

definition check_hash :: "pesigcheck_context \<Rightarrow> 's checkfn" where
  "check_hash ctx st sig sigtype =
     (if sigtype = efi_guid_sha256 then
        (case memcmp_eq (digest_sha256 ctx) (item_data sig) 32 of
           Inl f \<Rightarrow> Inl f
         | Inr True \<Rightarrow> Inr (FOUND, st)
         | Inr False \<Rightarrow> Inr (NOT_FOUND, st))
      else if sigtype = efi_guid_sha1 then
        (case memcmp_eq (digest_sha1 ctx) (item_data sig) 20 of
           Inl f \<Rightarrow> Inl f
         | Inr True \<Rightarrow> Inr (FOUND, st)
         | Inr False \<Rightarrow> Inr (NOT_FOUND, st))
      else Inr (NOT_FOUND, st))"

definition check_db_hash ::
  "db_specifier \<Rightarrow> pesigcheck_context \<Rightarrow> (fault + (db_status \<times> SECItem option \<times> unit)) option"
where
  "check_db_hash which ctx = check_db which ctx (check_hash ctx) False ()"

subsection \<open>add_db_file: loading one source\<close>

type_synonym errno = int

definition ENOENT :: errno where
  "ENOENT = 2"

text \<open>
  What the C library and the kernel answer during one call of \<^verbatim>\<open>add_db_file\<close>, in the
  order the code asks. An \<open>errno option\<close> is \<open>None\<close> when the call succeeds and
  \<open>Some e\<close> when it fails leaving \<open>e\<close> in \<^verbatim>\<open>errno\<close>. The file is \<open>file_bytes\<close>
  throughout the call: \<^verbatim>\<open>fstat\<close> reports its length, and \<^verbatim>\<open>mmap\<close> or, when that fails,
  \<^verbatim>\<open>read_file\<close> deliver its bytes.
\<close>

record load_env =
  calloc_dblist :: "errno option"
  open_dbfile :: "errno option"
  strdup_dbfile :: "errno option"
  basename_result :: string
  strdup_basename :: "errno option"
  fstat_dbfile :: "errno option"
  file_bytes :: "byte list"
  mmap_failed :: bool
  read_file_dbfile :: "errno option"
  calloc_data :: "errno option"

text \<open>\<^verbatim>\<open>memcpy(buf + off, src, length src)\<close> into a buffer that has the room.\<close>

definition store :: "nat \<Rightarrow> byte list \<Rightarrow> byte list \<Rightarrow> byte list" where
  "store off src buf = take off buf @ src @ drop (off + length src) buf"

text \<open>
  The \<^verbatim>\<open>DB_CERT\<close> branch, lines 100-116, after the \<^verbatim>\<open>calloc\<close> of \<open>dl\<close> zero bytes
  succeeded: the three \<^verbatim>\<open>uint32_t\<close> fields keep the low 32 bits of what is assigned.
\<close>

definition wrap_cert :: "nat \<Rightarrow> nat \<Rightarrow> byte list \<Rightarrow> byte list" where
  "wrap_cert dl sz m =
     store (sizeof_EFI_SIGNATURE_LIST + sizeof_efi_guid_t) (take sz m)
       (store 24 (enc32 ((sz + sizeof_efi_guid_t) mod u32_max))
         (store 20 (enc32 0)
           (store 16 (enc32 (dl mod u32_max))
             (store 0 efi_guid_x509_cert (replicate dl 0)))))"

text \<open>
  \<^verbatim>\<open>add_db_file\<close> returns its result, the value of \<^verbatim>\<open>errno\<close> on return and the context.
  The errno guard (its macros are declared outside \<^verbatim>\<open>src/\<close>) puts back into \<^verbatim>\<open>errno\<close>, when
  the function is left, the value last given to \<^verbatim>\<open>override_errno_guard\<close>: the errno of the
  failing call, or 0 on success. The first \<^verbatim>\<open>calloc\<close> fails before the guard is set.
\<close>

definition add_db_file ::
  "load_env \<Rightarrow> pesigcheck_context \<Rightarrow> db_specifier \<Rightarrow> string \<Rightarrow> db_f_type
     \<Rightarrow> int \<times> errno \<times> pesigcheck_context"
where
  "add_db_file env ctx which dbfile type =
     (case calloc_dblist env of Some e \<Rightarrow> (- 1, e, ctx) | None \<Rightarrow>
     (case open_dbfile env of Some e \<Rightarrow> (- 1, e, ctx) | None \<Rightarrow>
     (case strdup_dbfile env of Some e \<Rightarrow> (- 1, e, ctx) | None \<Rightarrow>
     (case strdup_basename env of Some e \<Rightarrow> (- 1, e, ctx) | None \<Rightarrow>
     (case fstat_dbfile env of Some e \<Rightarrow> (- 1, e, ctx) | None \<Rightarrow>
     (case (if mmap_failed env then read_file_dbfile env else None) of
        Some e \<Rightarrow> (- 1, e, ctx)
      | None \<Rightarrow>
          (let sz = length (file_bytes env);
               m = file_bytes env;
               d0 = \<lparr>ftype = type, path = basename_result env, fsize = sz, mapped = m,
                      datalen = 0, data = []\<rparr>;
               link = (\<lambda>d. (0, 0,
                        if which = DB then ctx\<lparr>db := d # db ctx\<rparr>
                        else ctx\<lparr>dbx := d # dbx ctx\<rparr>))
           in case type of
                DB_FILE \<Rightarrow> link (d0\<lparr>data := m, datalen := sz\<rparr>)
              | DB_EFIVAR \<Rightarrow>
                  link (d0\<lparr>data := drop 4 m, datalen := (sz + size_max - 4) mod size_max\<rparr>)
              | DB_CERT \<Rightarrow>
                  (let dl = (sz + sizeof_EFI_SIGNATURE_LIST + sizeof_efi_guid_t) mod size_max
                   in case calloc_data env of
                        Some e \<Rightarrow> (- 1, e, ctx)
                      | None \<Rightarrow> link (d0\<lparr>datalen := dl, data := wrap_cert dl sz m\<rparr>)))))))))"

definition add_cert_db :: "load_env \<Rightarrow> pesigcheck_context \<Rightarrow> string
     \<Rightarrow> int \<times> errno \<times> pesigcheck_context" where
  "add_cert_db env ctx filename = add_db_file env ctx DB filename DB_FILE"

definition add_cert_dbx :: "load_env \<Rightarrow> pesigcheck_context \<Rightarrow> string
     \<Rightarrow> int \<times> errno \<times> pesigcheck_context" where
  "add_cert_dbx env ctx filename = add_db_file env ctx DBX filename DB_FILE"

definition add_cert_file :: "load_env \<Rightarrow> pesigcheck_context \<Rightarrow> string
     \<Rightarrow> int \<times> errno \<times> pesigcheck_context" where
  "add_cert_file env ctx filename = add_db_file env ctx DB filename DB_CERT"

subsection \<open>init_cert_db\<close>

definition DB_PATH :: string where
  "DB_PATH = ''/sys/firmware/efi/efivars/db-d719b2cb-3d3a-4596-a3bc-dad00e67656f''"

definition MOK_PATH :: string where
  "MOK_PATH = ''/sys/firmware/efi/efivars/MokListRT-605dab50-e046-4300-abb6-3dd810dd8b23''"

definition DBX_PATH :: string where
  "DBX_PATH = ''/sys/firmware/efi/efivars/dbx-d719b2cb-3d3a-4596-a3bc-dad00e67656f''"

definition MOKX_PATH :: string where
  "MOKX_PATH = ''/sys/firmware/efi/efivars/MokListXRT-605dab50-e046-4300-abb6-3dd810dd8b23''"

text \<open>The lines written to \<^verbatim>\<open>stderr\<close>; \<^verbatim>\<open>%m\<close> is kept as the errno it renders.\<close>

datatype init_diag =
    Could_not_add_key_database string errno
  | Could_not_add_revocation_database string errno
  | No_key_database_available
  | No_key_recovation_database_available

text \<open>A \<^verbatim>\<open>void\<close> function that may call \<^verbatim>\<open>exit\<close>, with what it wrote before.\<close>

datatype init_result =
    Exit int "init_diag list"
  | Return pesigcheck_context "init_diag list"

text \<open>\<open>sys\<close> gives, for each path, the environment its \<^verbatim>\<open>add_db_file\<close> call meets.\<close>

definition init_cert_db ::
  "(string \<Rightarrow> load_env) \<Rightarrow> pesigcheck_context \<Rightarrow> bool \<Rightarrow> init_result"
where
  "init_cert_db sys ctx use_system_dbs =
     (if \<not> use_system_dbs then Return ctx []
      else
        (case add_db_file (sys DB_PATH) ctx DB DB_PATH DB_EFIVAR of (rc1, errno1, ctx1) \<Rightarrow>
         if rc1 < 0 \<and> errno1 \<noteq> ENOENT
         then Exit 1 [Could_not_add_key_database DB_PATH errno1]
         else
        (case add_db_file (sys MOK_PATH) ctx1 DB MOK_PATH DB_EFIVAR of (rc2, errno2, ctx2) \<Rightarrow>
         if rc2 < 0 \<and> errno2 \<noteq> ENOENT
         then Exit 1 [Could_not_add_key_database MOK_PATH errno2]
         else
        (let out1 = (if db ctx2 = [] then [No_key_database_available] else []) in
        (case add_db_file (sys DBX_PATH) ctx2 DBX DBX_PATH DB_EFIVAR of (rc3, errno3, ctx3) \<Rightarrow>
         if rc3 < 0 \<and> errno3 \<noteq> ENOENT
         then Exit 1 (out1 @ [Could_not_add_revocation_database DBX_PATH errno3])
         else
        (case add_db_file (sys MOKX_PATH) ctx3 DBX MOKX_PATH DB_EFIVAR of (rc4, errno4, ctx4) \<Rightarrow>
         if rc4 < 0 \<and> errno4 \<noteq> ENOENT
         then Exit 1 (out1 @ [Could_not_add_key_database MOKX_PATH errno4])
         else
           Return ctx4
             (out1 @ (if dbx ctx4 = [] then [No_key_recovation_database_available]
                      else []))))))))"

subsection \<open>check_cert and the NSS calls it makes\<close>

text \<open>\<^verbatim>\<open>PRTime\<close> is a signed 64-bit count of microseconds; nothing below can overflow it.\<close>

type_synonym PRTime = int

definition PRTime_MAX :: PRTime where
  "PRTime_MAX = 0x7fffffffffffffff"

text \<open>C division of a \<^verbatim>\<open>PRTime\<close> by a positive constant truncates towards zero.\<close>

definition c_div :: "int \<Rightarrow> int \<Rightarrow> int" where
  "c_div a b = (if a < 0 then - ((- a) div b) else a div b)"

text \<open>
  The fields of a decoded \<^verbatim>\<open>SEC_PKCS7ContentInfo\<close> that the code reads itself:
  whether \<^verbatim>\<open>contentTypeTag->offset\<close> is \<^verbatim>\<open>SEC_OID_PKCS7_SIGNED_DATA\<close>, the entries of
  \<^verbatim>\<open>content.signedData->rawCerts\<close> before its NULL terminator (none for a NULL array), and
  the pointer \<^verbatim>\<open>content.signedData->contentInfo.content.data\<close> (\<open>None\<close> for NULL).
\<close>

record SEC_PKCS7ContentInfo =
  is_signed_data :: bool
  rawCerts :: "byte list list"
  content_data :: "SECItem option"

type_synonym CERTCertificate = nat

text \<open>
  NSS is outside the repository: each call the code makes is a field giving what the call
  answers. A call that reports an error is \<open>Some e\<close> (or \<open>Inl e\<close>) with the code that
  \<^verbatim>\<open>PORT_GetError\<close> returns afterwards. \<^verbatim>\<open>SEC_PKCS7DecodeItem\<close> is asked twice; its first
  argument here is 0 for the first call and 1 for the second.
  \<^verbatim>\<open>CERT_GetCertTimes\<close> maps the values of \<^verbatim>\<open>nb\<close> and \<^verbatim>\<open>na\<close> before the call to their values
  after it.
\<close>

record nss =
  SEC_PKCS7DecodeItem :: "nat \<Rightarrow> SECItem \<Rightarrow> SEC_PKCS7ContentInfo option"
  CERT_GetDefaultCertDB :: bool
  CERT_ImportCerts :: "byte list list \<Rightarrow> (nat \<Rightarrow> CERTCertificate) option"
  CERT_GetCertTimes :: "CERTCertificate \<Rightarrow> PRTime \<times> PRTime \<Rightarrow> PRTime \<times> PRTime"
  SEC_PKCS7GetSigningTime :: "SEC_PKCS7ContentInfo \<Rightarrow> byte list option"
  DER_DecodeTimeChoice :: "byte list \<Rightarrow> PRTime option"
  SECITEM_AllocItem :: bool
  SECOID_FindOIDByTag :: bool
  PK11_CreateDigestContext :: bool
  PK11_DigestBegin :: bool
  PK11_DigestOp :: "SECItem \<Rightarrow> bool"
  PK11_DigestFinal :: "SECItem \<Rightarrow> byte list option"
  CERT_NewTempCertificate :: "SECItem \<Rightarrow> int + CERTCertificate"
  CERT_DecodeTrustString :: "int option"
  CERT_ChangeCertTrust :: "CERTCertificate \<Rightarrow> int option"
  SEC_PKCS7VerifyDetachedSignatureAtTime ::
    "SEC_PKCS7ContentInfo \<Rightarrow> byte list \<Rightarrow> PRTime \<Rightarrow> int option"

text \<open>One round of the \<^verbatim>\<open>for\<close> loop of \<^verbatim>\<open>find_cert_times\<close>, lines 324-331.\<close>

definition cert_times_step ::
  "nss \<Rightarrow> (nat \<Rightarrow> CERTCertificate) \<Rightarrow> nat \<Rightarrow> PRTime \<times> PRTime \<Rightarrow> PRTime \<times> PRTime"
where
  "cert_times_step lib certs i acc =
     (case acc of (notBefore, notAfter) \<Rightarrow>
        (case CERT_GetCertTimes lib (certs i) (0, 0x7fffffffffff) of (nb, na) \<Rightarrow>
           (if notBefore < nb then nb else notBefore,
            if notAfter > na then na else notAfter)))"

text \<open>\<^verbatim>\<open>find_cert_times\<close>: the pair is \<^verbatim>\<open>(*notBefore, *notAfter)\<close> before and after.\<close>

definition find_cert_times ::
  "nss \<Rightarrow> SEC_PKCS7ContentInfo \<Rightarrow> PRTime \<times> PRTime \<Rightarrow> PRTime \<times> PRTime"
where
  "find_cert_times lib cinfo tm =
     (if \<not> is_signed_data cinfo then (0, PRTime_MAX)
      else if \<not> CERT_GetDefaultCertDB lib then (0, PRTime_MAX)
      else
        (let certcount = length (rawCerts cinfo)
         in case CERT_ImportCerts lib (rawCerts cinfo) of
              None \<Rightarrow> (0, PRTime_MAX)
            | Some certs \<Rightarrow> fold (cert_times_step lib certs) [0..<certcount] tm))"

text \<open>Lines 351-381 of \<^verbatim>\<open>check_cert\<close>: the values of \<^verbatim>\<open>(earlyNow, lateNow)\<close> at line 383.\<close>

definition signing_window :: "nss \<Rightarrow> SEC_PKCS7ContentInfo \<Rightarrow> PRTime \<times> PRTime" where
  "signing_window lib cinfo =
     (let earlyNow = 0;
          lateNow = PRTime_MAX
      in case find_cert_times lib cinfo (earlyNow, lateNow) of (notBefore, notAfter) \<Rightarrow>
        (let earlyNow = (if earlyNow < notBefore then notBefore else earlyNow);
             lateNow = (if lateNow > notAfter then notAfter else lateNow)
         in case SEC_PKCS7GetSigningTime lib cinfo of
              None \<Rightarrow> (earlyNow, lateNow)
            | Some eTime \<Rightarrow>
                (case DER_DecodeTimeChoice lib eTime of
                   None \<Rightarrow> (earlyNow, lateNow)
                 | Some atTime \<Rightarrow>
                     (if earlyNow < atTime then atTime else earlyNow,
                      if lateNow > atTime then atTime else lateNow))))"

text \<open>What \<^verbatim>\<open>check_cert\<close> prints: one line on \<^verbatim>\<open>stdout\<close>, the others on \<^verbatim>\<open>stderr\<close>.\<close>

datatype cert_diag =
    Impossible_time_constraint int int
  | Unable_to_create_cert int
  | Unable_to_decode_trust_string int
  | Failed_to_change_cert_trust int
  | Verify_error int

text \<open>
  Lines 393-447, after the second decode gave \<open>cinfo\<close>. \<open>ctx_null\<close> is the test
  \<^verbatim>\<open>ctx == NULL\<close> of line 404. \<^verbatim>\<open>PK11_DigestBegin\<close> reads through its context without
  testing it, and line 409 reads through \<^verbatim>\<open>content\<close>: on a NULL pointer each is a fault.
\<close>

definition verify_with ::
  "nss \<Rightarrow> bool \<Rightarrow> SEC_PKCS7ContentInfo \<Rightarrow> PRTime \<Rightarrow> cert_diag list \<Rightarrow> SECItem
     \<Rightarrow> fault + (db_status \<times> cert_diag list)"
where
  "verify_with lib ctx_null cinfo atTime out sig =
     (if \<not> SECITEM_AllocItem lib then Inr (NOT_FOUND, out)
      else if \<not> SECOID_FindOIDByTag lib then Inr (NOT_FOUND, out)
      else if ctx_null then Inr (NOT_FOUND, out)
      else if \<not> PK11_CreateDigestContext lib then Inl NullDeref
      else if \<not> PK11_DigestBegin lib then Inr (NOT_FOUND, out)
      else
        (case content_data cinfo of
           None \<Rightarrow> Inl NullDeref
         | Some content \<Rightarrow>
             (let signed = \<lparr>item_data = drop 2 (item_data content),
                             item_len = sub_u32 (item_len content) 2\<rparr>
              in if \<not> PK11_DigestOp lib signed then Inr (NOT_FOUND, out)
                 else
                   (case PK11_DigestFinal lib signed of
                      None \<Rightarrow> Inr (NOT_FOUND, out)
                    | Some digest \<Rightarrow>
                        (case CERT_NewTempCertificate lib sig of
                           Inl e \<Rightarrow> Inr (NOT_FOUND, out @ [Unable_to_create_cert e])
                         | Inr cert \<Rightarrow>
                             (case CERT_DecodeTrustString lib of
                                Some e \<Rightarrow>
                                  Inr (NOT_FOUND, out @ [Unable_to_decode_trust_string e])
                              | None \<Rightarrow>
                                  (case CERT_ChangeCertTrust lib cert of
                                     Some e \<Rightarrow>
                                       Inr (NOT_FOUND, out @ [Failed_to_change_cert_trust e])
                                   | None \<Rightarrow>
                                       (case SEC_PKCS7VerifyDetachedSignatureAtTime lib
                                               cinfo digest atTime of
                                          Some e \<Rightarrow> Inr (NOT_FOUND, out @ [Verify_error e])
                                        | None \<Rightarrow> Inr (FOUND, out)))))))))"

text \<open>
  \<^verbatim>\<open>check_cert\<close>, with \<^verbatim>\<open>ctx\<close> reduced to whether the pointer is NULL (nothing else of it
  is used) and the lines printed so far as the state of the callback.
\<close>

definition check_cert :: "nss \<Rightarrow> bool \<Rightarrow> SECItem \<Rightarrow> cert_diag list checkfn" where
  "check_cert lib ctx_null pkcs7sig out sig sigtype =
     (if sigtype \<noteq> efi_guid_x509_cert then Inr (NOT_FOUND, out)
      else
        (case SEC_PKCS7DecodeItem lib 0 pkcs7sig of
           None \<Rightarrow> Inr (NOT_FOUND, out)
         | Some cinfo \<Rightarrow>
             (case signing_window lib cinfo of (earlyNow, lateNow) \<Rightarrow>
                (let out1 = (if lateNow < earlyNow
                             then out @ [Impossible_time_constraint
                                           (c_div earlyNow 1000000) (c_div lateNow 1000000)]
                             else out);
                     atTime = c_div earlyNow 2 + c_div lateNow 2
                 in case SEC_PKCS7DecodeItem lib 1 pkcs7sig of
                      None \<Rightarrow> Inr (NOT_FOUND, out1)
                    | Some cinfo2 \<Rightarrow> verify_with lib ctx_null cinfo2 atTime out1 sig))))"

definition check_db_cert ::
  "nss \<Rightarrow> db_specifier \<Rightarrow> pesigcheck_context \<Rightarrow> SECItem \<Rightarrow> bool
     \<Rightarrow> (fault + (db_status \<times> SECItem option \<times> cert_diag list)) option"
where
  "check_db_cert lib which ctx pkcs7sig match =
     check_db which ctx (check_cert lib False pkcs7sig) match []"

section \<open>Definitions used to state the properties\<close>

subsection \<open>Sources for the examples\<close>

text \<open>An environment in which every call succeeds and the file holds \<open>bs\<close>.\<close>

definition ok_env :: "byte list \<Rightarrow> load_env" where
  "ok_env bs = \<lparr>calloc_dblist = None, open_dbfile = None, strdup_dbfile = None,
                 basename_result = ''db'', strdup_basename = None, fstat_dbfile = None,
                 file_bytes = bs, mmap_failed = False, read_file_dbfile = None,
                 calloc_data = None\<rparr>"

definition empty_ctx :: pesigcheck_context where
  "empty_ctx = \<lparr>db = [], dbx = [], digest_sha256 = replicate 32 7,
                 digest_sha1 = replicate 20 9\<rparr>"

text \<open>The context after \<^verbatim>\<open>add_cert_db\<close> loaded a file holding \<open>bs\<close> into an empty database.\<close>

definition ctx_with_db_file :: "byte list \<Rightarrow> pesigcheck_context" where
  "ctx_with_db_file bs = snd (snd (add_cert_db (ok_env bs) empty_ctx ''db''))"

text \<open>
  Three files of one list header each: an entry size of 0, a total size of 0, and four
  bytes too short to hold a header.
\<close>

definition zero_entry_size_file :: "byte list" where
  "zero_entry_size_file = efi_guid_sha256 @ [28, 0, 0, 0] @ [0, 0, 0, 0] @ [0, 0, 0, 0]"

definition zero_total_size_file :: "byte list" where
  "zero_total_size_file = efi_guid_sha256 @ [0, 0, 0, 0] @ [0, 0, 0, 0] @ [48, 0, 0, 0]"

definition short_file :: "byte list" where
  "short_file = [0, 0, 0, 0]"

text \<open>An entry that carries the SHA-256 digest of \<^const>\<open>empty_ctx\<close> and eight more bytes.\<close>

definition sha256_item :: SECItem where
  "sha256_item = \<lparr>item_data = replicate 40 7, item_len = 32\<rparr>"

subsection \<open>The failures of a load\<close>

text \<open>
  The steps of \<^verbatim>\<open>add_db_file\<close> that can fail: the allocation of the \<^verbatim>\<open>dblist\<close>, the open,
  the two path duplications, the stat, the fallback read after a failed mapping, and the
  allocation of the synthetic region of a \<^verbatim>\<open>DB_CERT\<close> source.
\<close>

definition load_fails :: "load_env \<Rightarrow> db_f_type \<Rightarrow> bool" where
  "load_fails env type \<longleftrightarrow>
     calloc_dblist env \<noteq> None \<or> open_dbfile env \<noteq> None \<or> strdup_dbfile env \<noteq> None \<or>
     strdup_basename env \<noteq> None \<or> fstat_dbfile env \<noteq> None \<or>
     (mmap_failed env \<and> read_file_dbfile env \<noteq> None) \<or>
     (type = DB_CERT \<and> calloc_data env \<noteq> None)"

text \<open>An environment whose \<^verbatim>\<open>open\<close> fails with \<open>e\<close>.\<close>

definition open_fails_env :: "errno \<Rightarrow> load_env" where
  "open_fails_env e = (ok_env [])\<lparr>open_dbfile := Some e\<rparr>"

subsection \<open>Well-formed regions and the entries they hold\<close>

text \<open>
  One signature list as it lies in a region: its type, its header-skip and entry sizes,
  and the bytes after the 28-byte header (the skipped header, the entries and any
  padding). Its total size is 28 plus those bytes.
\<close>

record siglist =
  sl_type :: efi_guid_t
  sl_header_size :: nat
  sl_sig_size :: nat
  sl_body :: "byte list"

definition sl_total :: "siglist \<Rightarrow> nat" where
  "sl_total g = sizeof_EFI_SIGNATURE_LIST + length (sl_body g)"

definition encode_siglist :: "siglist \<Rightarrow> byte list" where
  "encode_siglist g =
     sl_type g @ enc32 (sl_total g) @ enc32 (sl_header_size g) @ enc32 (sl_sig_size g)
       @ sl_body g"

text \<open>
  The list is well-formed when its sizes fit their 32-bit fields, the entry size is not
  zero and the header-skip is smaller than the total size.
\<close>

definition wf_siglist :: "siglist \<Rightarrow> bool" where
  "wf_siglist g \<longleftrightarrow>
     length (sl_type g) = 16 \<and> sl_total g < u32_max \<and> sl_header_size g < sl_total g \<and>
     0 < sl_sig_size g \<and> sl_sig_size g < u32_max"

text \<open>
  What may follow the last list: nothing, or a truncated list whose header still shows
  a total size that is larger than what is left.
\<close>

definition wf_trailer :: "byte list \<Rightarrow> bool" where
  "wf_trailer t \<longleftrightarrow> t = [] \<or> (20 \<le> length t \<and> length t < le32 (take 4 (drop 16 t)))"

fun region :: "siglist list \<Rightarrow> byte list \<Rightarrow> byte list" where
  "region [] t = t"
| "region (g # gs) t = encode_siglist g @ region gs t"

text \<open>
  Entry \<open>i\<close> of a list that starts at \<open>p\<close>: after the header, the header-skip and \<open>i\<close>
  entries comes a 16-byte owner and then the payload.
\<close>

definition entry_at :: "siglist \<Rightarrow> byte list \<Rightarrow> nat \<Rightarrow> efi_guid_t \<times> SECItem" where
  "entry_at g p i =
     (sl_type g,
      \<lparr>item_data = drop (sizeof_EFI_SIGNATURE_LIST + sl_header_size g + i * sl_sig_size g
                           + sizeof_efi_guid_t) p,
       item_len = sub_u32 (sl_sig_size g) sizeof_efi_guid_t\<rparr>)"

definition siglist_entries :: "siglist \<Rightarrow> byte list \<Rightarrow> (efi_guid_t \<times> SECItem) list" where
  "siglist_entries g p =
     map (entry_at g p) [0..<(sl_total g - sl_header_size g) div sl_sig_size g]"

fun region_groups :: "siglist list \<Rightarrow> byte list \<Rightarrow> (efi_guid_t \<times> SECItem) list list" where
  "region_groups [] t = []"
| "region_groups (g # gs) t = siglist_entries g (region (g # gs) t) # region_groups gs t"

definition region_entries :: "siglist list \<Rightarrow> byte list \<Rightarrow> (efi_guid_t \<times> SECItem) list" where
  "region_entries gs t = concat (region_groups gs t)"

text \<open>A source whose usable region is the given lists and trailer.\<close>

definition holds_region :: "dblist \<Rightarrow> siglist list \<times> byte list \<Rightarrow> bool" where
  "holds_region d l \<longleftrightarrow>
     (case l of (gs, t) \<Rightarrow>
        data d = region gs t \<and> datalen d = length (region gs t) \<and>
        list_all wf_siglist gs \<and> wf_trailer t)"

subsection \<open>Search, in the words of the specification\<close>

text \<open>
  The predicate is called on the entries in order; the first \<open>FOUND\<close> ends the search
  with that entry, and so does a fault of the predicate.
\<close>

fun first_match ::
  "'s checkfn \<Rightarrow> (efi_guid_t \<times> SECItem) list \<Rightarrow> 's \<Rightarrow> fault + (SECItem option \<times> 's)"
where
  "first_match check [] st = Inr (None, st)"
| "first_match check (e # es) st =
     (case check st (snd e) (fst e) of
        Inl f \<Rightarrow> Inl f
      | Inr (FOUND, st') \<Rightarrow> Inr (Some (snd e), st')
      | Inr (NOT_FOUND, st') \<Rightarrow> first_match check es st')"

definition search_result ::
  "bool \<Rightarrow> fault + (SECItem option \<times> 's) \<Rightarrow> fault + (db_status \<times> SECItem option \<times> 's)"
where
  "search_result match r =
     (case r of
        Inl f \<Rightarrow> Inl f
      | Inr (Some sig, st') \<Rightarrow> Inr (FOUND, if match then Some sig else None, st')
      | Inr (None, st') \<Rightarrow> Inr (NOT_FOUND, None, st'))"

text \<open>A predicate that only notes what it is called with, and one that has no effect.\<close>

definition record_entry :: "(efi_guid_t \<times> SECItem) list checkfn" where
  "record_entry st sig sigtype = Inr (NOT_FOUND, st @ [(sigtype, sig)])"

definition pure_check :: "(SECItem \<Rightarrow> efi_guid_t \<Rightarrow> db_status) \<Rightarrow> 's checkfn" where
  "pure_check p st sig sigtype = Inr (p sig sigtype, st)"

text \<open>How the walk over one source ends, given what the search over its entries gave.\<close>

definition walk_outcome ::
  "nat \<Rightarrow> fault + (SECItem option \<times> 's) \<Rightarrow> fault + (walk_end \<times> 's)"
where
  "walk_outcome left r =
     (case r of
        Inl f \<Rightarrow> Inl f
      | Inr (Some sig, st') \<Rightarrow> Inr (Matched sig, st')
      | Inr (None, st') \<Rightarrow> Inr (Exhausted left, st'))"

text \<open>The entries of a chain whose sources hold the given regions, head first.\<close>

definition chain_entries ::
  "(siglist list \<times> byte list) list \<Rightarrow> (efi_guid_t \<times> SECItem) list" where
  "chain_entries ls = concat (map (\<lambda>l. region_entries (fst l) (snd l)) ls)"

definition chain_of :: "db_specifier \<Rightarrow> pesigcheck_context \<Rightarrow> dblist list" where
  "chain_of which ctx = (if which = DB then db ctx else dbx ctx)"

text \<open>
  Two lists: one SHA-256 entry carrying the digest of \<^const>\<open>empty_ctx\<close>, and one SHA-1
  entry carrying another digest followed by four bytes of padding.
\<close>

definition sha256_list :: siglist where
  "sha256_list = \<lparr>sl_type = efi_guid_sha256, sl_header_size = 0, sl_sig_size = 48,
                   sl_body = replicate 16 0 @ replicate 32 7\<rparr>"

definition sha1_list :: siglist where
  "sha1_list = \<lparr>sl_type = efi_guid_sha1, sl_header_size = 0, sl_sig_size = 36,
                 sl_body = replicate 16 0 @ replicate 20 5 @ replicate 4 0\<rparr>"

text \<open>
  The context after \<^verbatim>\<open>add_cert_db\<close> loaded first a file holding \<^const>\<open>sha1_list\<close> and then
  a file holding \<^const>\<open>sha256_list\<close>.
\<close>

definition two_file_ctx :: pesigcheck_context where
  "two_file_ctx =
     snd (snd (add_cert_db (ok_env (region [sha256_list] []))
                 (ctx_with_db_file (region [sha1_list] [])) ''db''))"

subsection \<open>A certificate as a one-entry list\<close>

text \<open>
  The list a bare certificate stands for: type X.509, no header-skip, one entry of a
  zero owner and the certificate.
\<close>

definition cert_siglist :: "byte list \<Rightarrow> siglist" where
  "cert_siglist cert =
     \<lparr>sl_type = efi_guid_x509_cert, sl_header_size = 0,
      sl_sig_size = length cert + sizeof_efi_guid_t,
      sl_body = replicate sizeof_efi_guid_t 0 @ cert\<rparr>"

definition small_cert :: "byte list" where
  "small_cert = [48, 11, 1, 2, 3, 4, 5, 6, 7, 8, 9, 10, 11]"

subsection \<open>Firmware variables\<close>

text \<open>A variable file of two bytes, and one of four attribute bytes before a list.\<close>

definition two_byte_var :: "byte list" where
  "two_byte_var = [7, 0]"

definition sha256_var :: "byte list" where
  "sha256_var = [7, 0, 0, 0] @ region [sha256_list] []"

text \<open>
  The environments of the four variables read by \<^verbatim>\<open>init_cert_db\<close> on a machine where
  only \<^verbatim>\<open>db\<close> exists and holds \<^const>\<open>sha256_var\<close>; the others fail to open with
  \<^verbatim>\<open>ENOENT\<close>.
\<close>

definition only_db_sys :: "string \<Rightarrow> load_env" where
  "only_db_sys p = (if p = DB_PATH then ok_env sha256_var else open_fails_env ENOENT)"

text \<open>A machine where \<^verbatim>\<open>db\<close> cannot be opened for lack of permission (\<^verbatim>\<open>EACCES\<close>).\<close>

definition denied_sys :: "string \<Rightarrow> load_env" where
  "denied_sys p = open_fails_env 13"

text \<open>The result of one load is fatal to \<^verbatim>\<open>init_cert_db\<close>.\<close>

definition fatal :: "int \<times> errno \<times> pesigcheck_context \<Rightarrow> bool" where
  "fatal r \<longleftrightarrow> fst r < 0 \<and> fst (snd r) \<noteq> ENOENT"

subsection \<open>The validity window, in the words of the specification\<close>

text \<open>
  The validity periods of the embedded certificates as \<^verbatim>\<open>find_cert_times\<close> obtains them:
  one per raw certificate when the message is signed data, the certificate database is
  there and the import succeeds, none otherwise.
\<close>

definition embedded_periods :: "nss \<Rightarrow> SEC_PKCS7ContentInfo \<Rightarrow> (PRTime \<times> PRTime) list" where
  "embedded_periods lib cinfo =
     (if is_signed_data cinfo \<and> CERT_GetDefaultCertDB lib then
        (case CERT_ImportCerts lib (rawCerts cinfo) of
           None \<Rightarrow> []
         | Some certs \<Rightarrow>
             map (\<lambda>i. CERT_GetCertTimes lib (certs i) (0, 0x7fffffffffff))
               [0..<length (rawCerts cinfo)])
      else [])"

text \<open>The intersection of \<open>[0, +infinity]\<close> with all of these periods.\<close>

definition certs_window :: "nss \<Rightarrow> SEC_PKCS7ContentInfo \<Rightarrow> PRTime \<times> PRTime" where
  "certs_window lib cinfo =
     (Max (insert 0 (fst ` set (embedded_periods lib cinfo))),
      Min (insert PRTime_MAX (snd ` set (embedded_periods lib cinfo))))"

text \<open>The signing time of the message, when it carries one that decodes.\<close>

definition embedded_signing_time :: "nss \<Rightarrow> SEC_PKCS7ContentInfo \<Rightarrow> PRTime option" where
  "embedded_signing_time lib cinfo =
     (case SEC_PKCS7GetSigningTime lib cinfo of
        None \<Rightarrow> None
      | Some eTime \<Rightarrow> DER_DecodeTimeChoice lib eTime)"

text \<open>
  The window as the specification words it: both bounds move to the signing time only
  if it lies within the window of the certificates.
\<close>

definition spec_signing_window :: "nss \<Rightarrow> SEC_PKCS7ContentInfo \<Rightarrow> PRTime \<times> PRTime" where
  "spec_signing_window lib cinfo =
     (case embedded_signing_time lib cinfo of
        None \<Rightarrow> certs_window lib cinfo
      | Some t \<Rightarrow>
          if fst (certs_window lib cinfo) \<le> t \<and> t \<le> snd (certs_window lib cinfo)
          then (t, t) else certs_window lib cinfo)"

text \<open>The arithmetic midpoint of a window with integer bounds, rounded down.\<close>

definition midpoint :: "PRTime \<times> PRTime \<Rightarrow> PRTime" where
  "midpoint w = (fst w + snd w) div 2"

text \<open>The line printed for an inverted window.\<close>

definition window_diag :: "PRTime \<times> PRTime \<Rightarrow> cert_diag list" where
  "window_diag w =
     (if snd w < fst w
      then [Impossible_time_constraint (c_div (fst w) 1000000) (c_div (snd w) 1000000)]
      else [])"

text \<open>
  Every step of \<^verbatim>\<open>check_cert\<close> between the second decode and the verification succeeds,
  with \<open>content\<close> the signed content, \<open>digest\<close> its digest and \<open>cert\<close> the imported
  candidate.
\<close>

definition reaches_verify ::
  "nss \<Rightarrow> bool \<Rightarrow> SEC_PKCS7ContentInfo \<Rightarrow> SECItem \<Rightarrow> SECItem \<Rightarrow> byte list
     \<Rightarrow> CERTCertificate \<Rightarrow> bool"
where
  "reaches_verify lib ctx_null cinfo sig content digest cert \<longleftrightarrow>
     SECITEM_AllocItem lib \<and> SECOID_FindOIDByTag lib \<and> \<not> ctx_null \<and>
     PK11_CreateDigestContext lib \<and> PK11_DigestBegin lib \<and>
     content_data cinfo = Some content \<and>
     PK11_DigestOp lib \<lparr>item_data = drop 2 (item_data content),
                          item_len = sub_u32 (item_len content) 2\<rparr> \<and>
     PK11_DigestFinal lib \<lparr>item_data = drop 2 (item_data content),
                             item_len = sub_u32 (item_len content) 2\<rparr> = Some digest \<and>
     CERT_NewTempCertificate lib sig = Inr cert \<and>
     CERT_DecodeTrustString lib = None \<and>
     CERT_ChangeCertTrust lib cert = None"

subsection \<open>An NSS for the examples\<close>

text \<open>
  A message of signed data with one embedded certificate valid from 10 to 20 and a
  signing time that decodes to \<open>t\<close>; every call succeeds and the signature verifies at
  every time.
\<close>

definition example_cinfo :: SEC_PKCS7ContentInfo where
  "example_cinfo = \<lparr>is_signed_data = True, rawCerts = [[48, 0]],
                     content_data = Some \<lparr>item_data = [48, 3, 1, 2, 3], item_len = 5\<rparr>\<rparr>"

definition example_nss :: "PRTime \<Rightarrow> nss" where
  "example_nss t =
     \<lparr>SEC_PKCS7DecodeItem = (\<lambda>n item. Some example_cinfo),
      CERT_GetDefaultCertDB = True,
      CERT_ImportCerts = (\<lambda>raw. Some (\<lambda>i. i)),
      CERT_GetCertTimes = (\<lambda>cert tm. (10, 20)),
      SEC_PKCS7GetSigningTime = (\<lambda>cinfo. Some [23, 0]),
      DER_DecodeTimeChoice = (\<lambda>eTime. Some t),
      SECITEM_AllocItem = True,
      SECOID_FindOIDByTag = True,
      PK11_CreateDigestContext = True,
      PK11_DigestBegin = True,
      PK11_DigestOp = (\<lambda>item. True),
      PK11_DigestFinal = (\<lambda>item. Some (replicate 32 1)),
      CERT_NewTempCertificate = (\<lambda>item. Inr 0),
      CERT_DecodeTrustString = None,
      CERT_ChangeCertTrust = (\<lambda>cert. None),
      SEC_PKCS7VerifyDetachedSignatureAtTime = (\<lambda>cinfo digest atTime. None)\<rparr>"

text \<open>The same library when no digest context can be created.\<close>

definition no_digest_context_nss :: nss where
  "no_digest_context_nss = (example_nss 15)\<lparr>PK11_CreateDigestContext := False\<rparr>"

definition example_pkcs7sig :: SECItem where
  "example_pkcs7sig = \<lparr>item_data = [48, 0], item_len = 2\<rparr>"

definition small_cert_item :: SECItem where
  "small_cert_item = \<lparr>item_data = small_cert, item_len = 13\<rparr>"

text \<open>The context after \<^verbatim>\<open>add_cert_file\<close> loaded \<^const>\<open>small_cert\<close> into an empty database.\<close>

definition cert_file_ctx :: pesigcheck_context where
  "cert_file_ctx = snd (snd (add_cert_file (ok_env small_cert) empty_ctx ''cert''))"

text \<open>
  The same library with a verifier that refuses every signature and reports, as its
  error, the time it was asked about.
\<close>

definition echo_time_nss :: "PRTime \<Rightarrow> nss" where
  "echo_time_nss t =
     (example_nss t)\<lparr>SEC_PKCS7VerifyDetachedSignatureAtTime :=
                        (\<lambda>cinfo digest atTime. Some atTime)\<rparr>"

section \<open>Properties\<close>

subsection \<open>The hash predicate\<close>

lemma efi_guid_sha256_neq_sha1: "efi_guid_sha256 \<noteq> efi_guid_sha1"
  by (simp add: efi_guid_sha256_def efi_guid_sha1_def)

lemma memcmp_eq_True_iff:
  fixes d p :: "byte list"
  shows "length d = n \<Longrightarrow> memcmp_eq d p n = Inr True \<longleftrightarrow> take n p = d"
  by (auto simp: memcmp_eq_def not_less)

text \<open>
  C4. With digests of 32 and 20 bytes in the context, \<^verbatim>\<open>check_hash\<close> answers \<open>FOUND\<close>
  exactly when the type is the SHA-256 identifier and the 32 bytes at the payload are the
  SHA-256 digest, or the type is the SHA-1 identifier and the 20 bytes at the payload are
  the SHA-1 digest; for every other type it answers \<open>NOT_FOUND\<close> and no fault.
\<close>

theorem check_hash_found_iff:
  assumes "length (digest_sha256 ctx) = 32" and "length (digest_sha1 ctx) = 20"
  shows "(check_hash ctx st sig sigtype = Inr (FOUND, st) \<longleftrightarrow>
            sigtype = efi_guid_sha256 \<and> take 32 (item_data sig) = digest_sha256 ctx
          \<or> sigtype = efi_guid_sha1 \<and> take 20 (item_data sig) = digest_sha1 ctx)
       \<and> (sigtype \<noteq> efi_guid_sha256 \<and> sigtype \<noteq> efi_guid_sha1 \<longrightarrow>
            check_hash ctx st sig sigtype = Inr (NOT_FOUND, st))"
  using assms efi_guid_sha256_neq_sha1
    memcmp_eq_True_iff [of "digest_sha256 ctx" 32 "item_data sig"]
    memcmp_eq_True_iff [of "digest_sha1 ctx" 20 "item_data sig"]
  by (auto simp: check_hash_def split: sum.splits bool.splits)

theorem check_hash_found_iff_witness:
  "check_hash empty_ctx () sha256_item efi_guid_sha256 = Inr (FOUND, ())
   \<and> check_hash empty_ctx () sha256_item efi_guid_x509_cert = Inr (NOT_FOUND, ())"
  using check_hash_found_iff [of empty_ctx "()" sha256_item efi_guid_sha256]
    check_hash_found_iff [of empty_ctx "()" sha256_item efi_guid_x509_cert]
  by (simp add: empty_ctx_def sha256_item_def efi_guid_sha256_def efi_guid_sha1_def
      efi_guid_x509_cert_def)

subsection \<open>Malformed list headers\<close>

lemma ctx_with_db_file_db:
  "db (ctx_with_db_file bs) =
     [\<lparr>ftype = DB_FILE, path = ''db'', fsize = length bs, mapped = bs,
       datalen = length bs, data = bs\<rparr>]"
  by (simp add: ctx_with_db_file_def add_cert_db_def add_db_file_def ok_env_def empty_ctx_def
      Let_def)

lemma zero_total_size_header:
  "read_u32 16 zero_total_size_file = Inr 0"
  "read_u32 20 zero_total_size_file = Inr 0"
  "read_u32 24 zero_total_size_file = Inr 48"
  by (simp_all add: zero_total_size_file_def efi_guid_sha256_def read_u32_def)

lemma zero_total_size_no_result:
  assumes "check_lists check dbsize certlist st = Some y"
  shows "dbsize = 28 \<longrightarrow> certlist = zero_total_size_file \<longrightarrow> False"
  by (rule check_lists.raw_induct [OF _ assms])
     (clarsimp simp: zero_total_size_header sub_u32_def u32_max_def check_sigs.simps, blast)

lemma zero_total_size_loops: "check_lists check 28 zero_total_size_file st = None"
  using zero_total_size_no_result [of check 28 zero_total_size_file st]
  by (cases "check_lists check 28 zero_total_size_file st") auto

lemma zero_entry_size_divides:
  "check_lists check 28 zero_entry_size_file st = Some (Inl DivByZero)"
  by (subst check_lists.simps)
     (simp add: zero_entry_size_file_def efi_guid_sha256_def read_u32_def)

lemma short_file_reads_past: "check_lists check 4 short_file st = Some (Inl OutOfBounds)"
  by (subst check_lists.simps) (simp add: short_file_def read_u32_def)

text \<open>
  C1. What \<^verbatim>\<open>check_db\<close> does, for any predicate, on a source whose list header has an
  entry size of 0 (it divides by zero), on one whose header has a total size of 0 (the
  loop never ends) and on one too short for a header (it reads past the buffer). None of
  them is reported as a malformed source.
\<close>

theorem check_db_malformed_header:
  "check_db DB (ctx_with_db_file zero_entry_size_file) check match st = Some (Inl DivByZero)
   \<and> check_db DB (ctx_with_db_file zero_total_size_file) check match st = None
   \<and> check_db DB (ctx_with_db_file short_file) check match st = Some (Inl OutOfBounds)"
proof -
  have "length zero_entry_size_file = 28" "length zero_total_size_file = 28"
    "length short_file = 4"
    by (simp_all add: zero_entry_size_file_def zero_total_size_file_def short_file_def
        efi_guid_sha256_def)
  then show ?thesis
    by (simp add: check_db_def ctx_with_db_file_db zero_entry_size_divides
        zero_total_size_loops short_file_reads_past)
qed

subsection \<open>Failed loads\<close>

text \<open>
  C10. \<^verbatim>\<open>add_db_file\<close> returns 0 or -1; it returns -1 exactly when one of its fallible
  steps fails, and then the context, with both chains, is the one it was given.
\<close>

theorem add_db_file_failure_keeps_ctx:
  assumes "add_db_file env ctx which dbfile type = (rc, e, ctx')"
  shows "(rc = 0 \<or> rc = - 1) \<and> (rc = - 1 \<longleftrightarrow> load_fails env type)
       \<and> (rc = - 1 \<longrightarrow> ctx' = ctx \<and> db ctx' = db ctx \<and> dbx ctx' = dbx ctx)"
  using assms
  by (auto simp: add_db_file_def load_fails_def Let_def
      split: option.splits db_f_type.splits if_splits)

theorem add_db_file_failure_keeps_ctx_witness:
  "add_db_file (open_fails_env 13) empty_ctx DB ''db'' DB_FILE = (- 1, 13, empty_ctx)
   \<and> load_fails (open_fails_env 13) DB_FILE"
  using add_db_file_failure_keeps_ctx
    [of "open_fails_env 13" empty_ctx DB "''db''" DB_FILE "- 1" 13 empty_ctx]
  by (simp add: add_db_file_def open_fails_env_def ok_env_def)

subsection \<open>The walk over a well-formed region\<close>

lemma length_enc32 [simp]: "length (enc32 n) = 4"
  by (simp add: enc32_def)

lemma split32:
  fixes n :: nat
  assumes "n < 4294967296"
  shows "n mod 256 + (256 * (n div 256 mod 256) + (65536 * (n div 65536 mod 256)
           + 16777216 * (n div 16777216 mod 256))) = n"
proof -
  define a where "a = n div 256"
  define b where "b = a div 256"
  define c where "c = b div 256"
  have n: "n = 256 * a + n mod 256" by (simp add: a_def)
  have a: "a = 256 * b + a mod 256" by (simp add: b_def)
  have b: "b = 256 * c + b mod 256" by (simp add: c_def)
  have b': "n div 65536 = b" by (simp add: a_def b_def div_mult2_eq)
  have c': "n div 16777216 = c" by (simp add: a_def b_def c_def div_mult2_eq)
  have "c < 256" using assms unfolding c' [symmetric] by simp
  then have c: "c mod 256 = c" by simp
  show ?thesis
    unfolding b' c' a_def [symmetric] c using n a b by linarith
qed

lemma le32_enc32: "n < u32_max \<Longrightarrow> le32 (enc32 n @ xs) = n"
  using split32 [of n] by (simp add: enc32_def u32_max_def unat_of_nat)

lemma read_u32_enc32:
  "length pre = off \<Longrightarrow> n < u32_max \<Longrightarrow> read_u32 off (pre @ enc32 n @ rest) = Inr n"
  using le32_enc32 [of n "[]"] by (simp add: read_u32_def)

lemma first_match_append:
  "first_match check (xs @ ys) st =
     (case first_match check xs st of
        Inl f \<Rightarrow> Inl f
      | Inr (Some sig, st') \<Rightarrow> Inr (Some sig, st')
      | Inr (None, st') \<Rightarrow> first_match check ys st')"
  by (induction xs arbitrary: st) (auto split: sum.splits db_status.splits option.splits prod.splits)

lemma check_sigs_first_match:
  "i \<le> n \<Longrightarrow>
   check_sigs check (sl_type g) (sl_sig_size g) n i
     (drop (sizeof_EFI_SIGNATURE_LIST + sl_header_size g + i * sl_sig_size g) p) st =
   first_match check (map (entry_at g p) [i..<n]) st"
proof (induction "n - i" arbitrary: i st)
  case 0
  then show ?case by (simp add: check_sigs.simps)
next
  case (Suc k)
  then have lt: "i < n" and k: "k = n - Suc i" and le: "Suc i \<le> n" by simp_all
  let ?X = "sizeof_EFI_SIGNATURE_LIST + sl_header_size g + i * sl_sig_size g"
  have d: "drop (sl_sig_size g) (drop ?X p)
    = drop (sizeof_EFI_SIGNATURE_LIST + sl_header_size g + Suc i * sl_sig_size g) p"
    by (simp add: add.commute add.left_commute)
  have e: "drop sizeof_efi_guid_t (drop ?X p) = drop (?X + sizeof_efi_guid_t) p"
    by (simp add: add.commute)
  have IH: "check_sigs check (sl_type g) (sl_sig_size g) n (Suc i)
      (drop (sizeof_EFI_SIGNATURE_LIST + sl_header_size g + Suc i * sl_sig_size g) p) st' =
    first_match check (map (entry_at g p) [Suc i..<n]) st'" for st'
    using Suc.hyps(1) [OF k le] .
  have u: "[i..<n] = i # [Suc i..<n]"
    using lt by (simp add: upt_conv_Cons)
  show ?case
    by (subst check_sigs.simps)
       (simp add: lt u Let_def d e IH entry_at_def
          split: sum.splits prod.splits db_status.splits del: mult_Suc drop_drop upt_Suc)
qed


lemma length_encode_siglist: "length (sl_type g) = 16 \<Longrightarrow> length (encode_siglist g) = sl_total g"
  by (simp add: encode_siglist_def sl_total_def sizeof_EFI_SIGNATURE_LIST_def)

lemma read_header:
  assumes "wf_siglist g"
  shows "read_u32 16 (encode_siglist g @ rest) = Inr (sl_total g)"
    and "read_u32 20 (encode_siglist g @ rest) = Inr (sl_header_size g)"
    and "read_u32 24 (encode_siglist g @ rest) = Inr (sl_sig_size g)"
proof -
  from assms have ty: "length (sl_type g) = 16" and a: "sl_total g < u32_max"
    and b: "sl_header_size g < u32_max" and c: "sl_sig_size g < u32_max"
    by (simp_all add: wf_siglist_def)
  show "read_u32 16 (encode_siglist g @ rest) = Inr (sl_total g)"
    using read_u32_enc32 [of "sl_type g" 16 "sl_total g"] ty a
    by (simp add: encode_siglist_def)
  show "read_u32 20 (encode_siglist g @ rest) = Inr (sl_header_size g)"
    using read_u32_enc32 [of "sl_type g @ enc32 (sl_total g)" 20 "sl_header_size g"] ty b
    by (simp add: encode_siglist_def)
  show "read_u32 24 (encode_siglist g @ rest) = Inr (sl_sig_size g)"
    using read_u32_enc32
      [of "sl_type g @ enc32 (sl_total g) @ enc32 (sl_header_size g)" 24 "sl_sig_size g"] ty c
    by (simp add: encode_siglist_def)
qed

lemma sub_u32_le:
  assumes "b \<le> a" and "a < u32_max"
  shows "sub_u32 a b = a - b"
proof -
  have h: "a + u32_max - b = (a - b) + u32_max"
    using assms by simp
  have "a - b < u32_max"
    using assms by simp
  then show ?thesis
    unfolding sub_u32_def h by simp
qed

lemma check_lists_trailer:
  assumes "wf_trailer t"
  shows "check_lists check (length t) t st = Some (Inr (Exhausted (length t), st))"
proof (cases "t = []")
  case True
  then show ?thesis by (subst check_lists.simps) simp
next
  case False
  with assms have "20 \<le> length t" and "length t < le32 (take 4 (drop 16 t))"
    by (simp_all add: wf_trailer_def)
  then show ?thesis
    by (subst check_lists.simps) (simp add: read_u32_def)
qed

lemma check_lists_region:
  assumes "list_all wf_siglist gs" and "wf_trailer t"
  shows "check_lists check (length (region gs t)) (region gs t) st =
         Some (walk_outcome (length t) (first_match check (region_entries gs t) st))"
  using assms(1)
proof (induction gs arbitrary: st)
  case Nil
  then show ?case
    by (simp add: check_lists_trailer [OF assms(2)] region_entries_def walk_outcome_def)
next
  case (Cons g gs)
  then have wf: "wf_siglist g" and wfs: "list_all wf_siglist gs" by simp_all
  define rest where "rest = region gs t"
  define p where "p = encode_siglist g @ rest"
  from wf have ty: "length (sl_type g) = 16" and lt: "sl_header_size g < sl_total g"
    and tot: "sl_total g < u32_max" and pos: "sl_sig_size g \<noteq> 0"
    by (simp_all add: wf_siglist_def)
  have len: "length (encode_siglist g) = sl_total g"
    by (rule length_encode_siglist [OF ty])
  have reg: "region (g # gs) t = p"
    by (simp add: p_def rest_def)
  have lenp: "length p = sl_total g + length rest"
    by (simp add: p_def len)
  have hdr: "read_u32 16 p = Inr (sl_total g)" "read_u32 20 p = Inr (sl_header_size g)"
    "read_u32 24 p = Inr (sl_sig_size g)"
    unfolding p_def by (rule read_header [OF wf])+
  have cnt: "sub_u32 (sl_total g) (sl_header_size g) = sl_total g - sl_header_size g"
    using lt tot by (simp add: sub_u32_le)
  have t16: "take sizeof_efi_guid_t p = sl_type g"
    using ty by (simp add: p_def encode_siglist_def sizeof_efi_guid_t_def)
  have dr: "drop (sl_total g) p = rest"
    by (simp add: p_def len)
  have sigs: "check_sigs check (sl_type g) (sl_sig_size g)
        ((sl_total g - sl_header_size g) div sl_sig_size g) 0
        (drop (sizeof_EFI_SIGNATURE_LIST + sl_header_size g) p) st' =
      first_match check (siglist_entries g p) st'" for st'
    using check_sigs_first_match [of 0 _ check g p st'] by (simp add: siglist_entries_def)
  have nz: "sl_total g \<noteq> 0" "length p - sl_total g = length rest"
    using lt by (simp_all add: lenp)
  have ent: "region_entries (g # gs) t = siglist_entries g p @ region_entries gs t"
    by (simp add: region_entries_def p_def rest_def)
  have IH: "check_lists check (length rest) rest st' =
         Some (walk_outcome (length t) (first_match check (region_entries gs t) st'))" for st'
    unfolding rest_def by (rule Cons.IH [OF wfs])
  have step: "check_lists check (length p) p st =
      (case first_match check (siglist_entries g p) st of
         Inl f \<Rightarrow> Some (Inl f)
       | Inr (Some sig, st') \<Rightarrow> Some (Inr (Matched sig, st'))
       | Inr (None, st') \<Rightarrow> check_lists check (length rest) rest st')"
    by (subst check_lists.simps)
       (simp add: hdr nz cnt t16 sigs pos dr lenp
          split: sum.splits option.splits prod.splits)
  show ?case
    unfolding reg step ent first_match_append
    by (simp add: IH walk_outcome_def split: sum.splits option.splits prod.splits)
qed

lemma first_match_record_entry: "first_match record_entry es st = Inr (None, st @ es)"
  by (induction es arbitrary: st) (simp_all add: record_entry_def)

lemma length_region: "list_all wf_siglist gs \<Longrightarrow> length (region gs t) = sum_list (map sl_total gs) + length t"
  by (induction gs) (simp_all add: length_encode_siglist wf_siglist_def)

lemma length_region_groups:
  "map length (region_groups gs t) = map (\<lambda>g. (sl_total g - sl_header_size g) div sl_sig_size g) gs"
  by (induction gs) (simp_all add: siglist_entries_def)

text \<open>
  C2. On a well-formed region (well-formed lists one after the other, then nothing or a
  truncated list) the walk hands the predicate, list after list, the entries \<open>0, 1, ...\<close>
  of each list in the order of their bytes, \<open>(total size - header-skip) div entry size\<close>
  of them per list; it steps over each list by its total size, so that the next list is
  read where the previous one ends whatever padding that one holds; it ends without
  a fault when what is left is shorter than the next total size; and the bytes it
  stepped over, the region without the trailer, are the sum of the total sizes, which is
  at most the length of the region.
\<close>

theorem walk_well_formed_region:
  assumes "list_all wf_siglist gs" and "wf_trailer t"
  shows "check_lists record_entry (length (region gs t)) (region gs t) [] =
           Some (Inr (Exhausted (length t), concat (region_groups gs t)))
       \<and> map length (region_groups gs t) =
           map (\<lambda>g. (sl_total g - sl_header_size g) div sl_sig_size g) gs
       \<and> length (region gs t) - length t = sum_list (map sl_total gs)
       \<and> sum_list (map sl_total gs) \<le> length (region gs t)"
  using check_lists_region [OF assms, of record_entry "[]"] length_region [OF assms(1), of t]
  by (simp add: first_match_record_entry walk_outcome_def length_region_groups region_entries_def)

lemma wf_examples: "wf_siglist sha256_list" "wf_siglist sha1_list"
  by (simp_all add: wf_siglist_def sha256_list_def sha1_list_def sl_total_def efi_guid_sha256_def efi_guid_sha1_def
     sizeof_EFI_SIGNATURE_LIST_def u32_max_def)

theorem walk_well_formed_region_witness:
  "check_lists record_entry (length (region [sha256_list, sha1_list] []))
      (region [sha256_list, sha1_list] []) [] =
     Some (Inr (Exhausted 0, concat (region_groups [sha256_list, sha1_list] [])))
   \<and> map length (region_groups [sha256_list, sha1_list] []) = [1, 1]
   \<and> length (region [sha256_list, sha1_list] []) = 144"
proof -
  have wf: "list_all wf_siglist [sha256_list, sha1_list]"
    by (simp add: wf_examples)
  have tr: "wf_trailer []"
    by (simp add: wf_trailer_def)
  have tot: "sl_total sha256_list = 76" "sl_total sha1_list = 68"
    by (simp_all add: sl_total_def sha256_list_def sha1_list_def sizeof_EFI_SIGNATURE_LIST_def)
  have sz: "sl_header_size sha256_list = 0" "sl_sig_size sha256_list = 48"
    "sl_header_size sha1_list = 0" "sl_sig_size sha1_list = 36"
    by (simp_all add: sha256_list_def sha1_list_def)
  note w = walk_well_formed_region [OF wf tr]
  have l: "length (region [sha256_list, sha1_list] []) = 144"
    using w by (simp add: tot)
  show ?thesis
    using w unfolding l by (simp add: tot sz)
qed

lemma check_dbl_first_match:
  assumes "list_all2 holds_region chain ls"
  shows "check_dbl check match chain st =
         Some (search_result match (first_match check (chain_entries ls) st))"
  using assms
proof (induction chain ls arbitrary: st rule: list_all2_induct)
  case Nil
  then show ?case by (simp add: chain_entries_def search_result_def)
next
  case (Cons d chain l ls)
  obtain gs t where l: "l = (gs, t)" by (cases l)
  with Cons.hyps(1) have d: "data d = region gs t" "datalen d = length (region gs t)"
    and wf: "list_all wf_siglist gs" "wf_trailer t"
    by (simp_all add: holds_region_def)
  have ent: "chain_entries (l # ls) = region_entries gs t @ chain_entries ls"
    by (simp add: chain_entries_def l)
  show ?case
    unfolding ent first_match_append
    by (simp add: d check_lists_region [OF wf] Cons.IH walk_outcome_def search_result_def
        split: sum.splits option.splits prod.splits)
qed

lemma first_match_pure_check:
  "first_match (pure_check p) es st =
     Inr (map_option snd (find (\<lambda>e. p (snd e) (fst e) = FOUND) es), st)"
  by (induction es) (auto simp: pure_check_def split: db_status.splits)

lemma add_db_file_links_at_head:
  assumes "\<not> load_fails env type"
  shows "\<exists>d. add_db_file env ctx which dbfile type =
           (0, 0, if which = DB then ctx\<lparr>db := d # db ctx\<rparr> else ctx\<lparr>dbx := d # dbx ctx\<rparr>)"
  using assms
  by (cases type) (auto simp: add_db_file_def load_fails_def Let_def)

subsection \<open>The search over a chain\<close>

text \<open>
  C3. When every source of the selected chain holds a well-formed region, \<^verbatim>\<open>check_db\<close>
  calls the predicate on the entries of the chain's sources, head source first and within
  a source in the order of the bytes, and stops at the first \<open>FOUND\<close>, which it
  returns with that entry (through \<^verbatim>\<open>match\<close> when the caller passed one); for a predicate
  without effects the result is that of \<^const>\<open>find\<close>, and it is \<open>NOT_FOUND\<close> exactly
  when the predicate says \<open>FOUND\<close> on no entry of any source. A successful
  \<^verbatim>\<open>add_db_file\<close> puts the new source at the head of its chain, so the source added last
  is searched first.
\<close>

theorem check_db_search:
  assumes "list_all2 holds_region (chain_of which ctx) ls"
  shows "check_db which ctx check match st =
           Some (search_result match (first_match check (chain_entries ls) st))
       \<and> check_db which ctx (pure_check p) match st =
           Some (Inr (case find (\<lambda>e. p (snd e) (fst e) = FOUND) (chain_entries ls) of
                        None \<Rightarrow> (NOT_FOUND, None, st)
                      | Some e \<Rightarrow> (FOUND, if match then Some (snd e) else None, st)))
       \<and> (check_db which ctx (pure_check p) match st = Some (Inr (NOT_FOUND, None, st)) \<longleftrightarrow>
            (\<forall>e \<in> set (chain_entries ls). p (snd e) (fst e) \<noteq> FOUND))
       \<and> (\<not> load_fails env type \<longrightarrow>
            (\<exists>d ctx'. add_db_file env ctx which dbfile type = (0, 0, ctx')
                 \<and> chain_of which ctx' = d # chain_of which ctx))"
proof -
  have a: "check_db which ctx c match s =
      Some (search_result match (first_match c (chain_entries ls) s))" for c :: "'a checkfn" and s
    unfolding check_db_def chain_of_def [symmetric]
    by (rule check_dbl_first_match [OF assms])
  have b: "check_db which ctx (pure_check p) match st =
           Some (Inr (case find (\<lambda>e. p (snd e) (fst e) = FOUND) (chain_entries ls) of
                        None \<Rightarrow> (NOT_FOUND, None, st)
                      | Some e \<Rightarrow> (FOUND, if match then Some (snd e) else None, st)))"
    by (simp add: a first_match_pure_check search_result_def split: option.splits)
  have c: "(check_db which ctx (pure_check p) match st = Some (Inr (NOT_FOUND, None, st))) =
            (\<forall>e \<in> set (chain_entries ls). p (snd e) (fst e) \<noteq> FOUND)"
    unfolding b by (auto simp: find_None_iff find_Some_iff split: option.splits)
  have d: "\<not> load_fails env type \<longrightarrow>
            (\<exists>d ctx'. add_db_file env ctx which dbfile type = (0, 0, ctx')
                 \<and> chain_of which ctx' = d # chain_of which ctx)"
    using add_db_file_links_at_head [of env type ctx which dbfile]
    by (auto simp: chain_of_def)
  from a b c d show ?thesis by blast
qed

lemma two_file_ctx_db:
  "db two_file_ctx =
     [\<lparr>ftype = DB_FILE, path = ''db'', fsize = length (region [sha256_list] []),
        mapped = region [sha256_list] [], datalen = length (region [sha256_list] []),
        data = region [sha256_list] []\<rparr>,
      \<lparr>ftype = DB_FILE, path = ''db'', fsize = length (region [sha1_list] []),
        mapped = region [sha1_list] [], datalen = length (region [sha1_list] []),
        data = region [sha1_list] []\<rparr>]"
  by (simp add: two_file_ctx_def add_cert_db_def add_db_file_def ok_env_def Let_def
      ctx_with_db_file_db del: region.simps)

lemma two_file_ctx_digests:
  "digest_sha256 two_file_ctx = replicate 32 7" "digest_sha1 two_file_ctx = replicate 20 9"
  by (simp_all add: two_file_ctx_def add_cert_db_def add_db_file_def ok_env_def Let_def
      ctx_with_db_file_def empty_ctx_def del: region.simps)

theorem check_db_search_witness:
  "check_db DB two_file_ctx (check_hash two_file_ctx) True () =
     Some (Inr (FOUND, Some \<lparr>item_data = replicate 32 7, item_len = 32\<rparr>, ()))"
proof -
  have h: "list_all2 holds_region (chain_of DB two_file_ctx)
             [([sha256_list], []), ([sha1_list], [])]"
    by (simp add: chain_of_def two_file_ctx_db holds_region_def wf_examples wf_trailer_def
        del: region.simps)
  have e: "chain_entries [([sha256_list], []), ([sha1_list], [])] =
      [(efi_guid_sha256, \<lparr>item_data = replicate 32 7, item_len = 32\<rparr>),
       (efi_guid_sha1, \<lparr>item_data = replicate 20 5 @ replicate 4 0, item_len = 20\<rparr>)]"
    by (simp add: chain_entries_def region_entries_def siglist_entries_def entry_at_def
        sha256_list_def sha1_list_def sl_total_def encode_siglist_def enc32_def
        sizeof_EFI_SIGNATURE_LIST_def sizeof_efi_guid_t_def sub_u32_def u32_max_def
        efi_guid_sha256_def efi_guid_sha1_def)
  show ?thesis
    using check_db_search [OF h, of "check_hash two_file_ctx" True "()"]
    unfolding e
    by (simp add: search_result_def check_hash_def memcmp_eq_def two_file_ctx_digests)
qed

subsection \<open>Wrapping a certificate\<close>

lemma store_at:
  "length pre = off \<Longrightarrow> length old = length src \<Longrightarrow>
   store off src (pre @ old @ rest) = pre @ src @ rest"
  by (simp add: store_def)

lemma wrap_cert_layout:
  assumes "length cert + 44 < u32_max"
  shows "wrap_cert (length cert + 44) (length cert) cert = encode_siglist (cert_siglist cert)"
proof -
  let ?L = "length cert"
  let ?z = "\<lambda>n. replicate n (0 :: byte)"
  let ?a = "enc32 (?L + 44)" and ?b = "enc32 0" and ?c = "enc32 (?L + 16)"
  have r: "?z (?L + 44) = ?z 16 @ ?z 4 @ ?z 4 @ ?z 4 @ ?z 16 @ ?z ?L"
    by (simp add: replicate_add [symmetric])
  have g: "length efi_guid_x509_cert = 16"
    by (simp add: efi_guid_x509_cert_def)
  have s0: "store 0 efi_guid_x509_cert (?z (?L + 44))
      = efi_guid_x509_cert @ ?z 4 @ ?z 4 @ ?z 4 @ ?z 16 @ ?z ?L"
    unfolding r using store_at [of "[]" 0 "?z 16" efi_guid_x509_cert] g by simp
  have s1: "store 16 ?a (efi_guid_x509_cert @ ?z 4 @ ?z 4 @ ?z 4 @ ?z 16 @ ?z ?L)
      = efi_guid_x509_cert @ ?a @ ?z 4 @ ?z 4 @ ?z 16 @ ?z ?L"
    using store_at [of efi_guid_x509_cert 16 "?z 4" ?a] g by simp
  have s2: "store 20 ?b (efi_guid_x509_cert @ ?a @ ?z 4 @ ?z 4 @ ?z 16 @ ?z ?L)
      = efi_guid_x509_cert @ ?a @ ?b @ ?z 4 @ ?z 16 @ ?z ?L"
    using store_at [of "efi_guid_x509_cert @ ?a" 20 "?z 4" ?b] g by simp
  have s3: "store 24 ?c (efi_guid_x509_cert @ ?a @ ?b @ ?z 4 @ ?z 16 @ ?z ?L)
      = efi_guid_x509_cert @ ?a @ ?b @ ?c @ ?z 16 @ ?z ?L"
    using store_at [of "efi_guid_x509_cert @ ?a @ ?b" 24 "?z 4" ?c] g by simp
  have s4: "store 44 cert (efi_guid_x509_cert @ ?a @ ?b @ ?c @ ?z 16 @ ?z ?L)
      = efi_guid_x509_cert @ ?a @ ?b @ ?c @ ?z 16 @ cert"
    using store_at [of "efi_guid_x509_cert @ ?a @ ?b @ ?c @ ?z 16" 44 "?z ?L" cert "[]"] g
    by simp
  have m: "(?L + 44) mod u32_max = ?L + 44" "(?L + 16) mod u32_max = ?L + 16"
    using assms by simp_all
  show ?thesis
    by (simp add: wrap_cert_def sizeof_EFI_SIGNATURE_LIST_def sizeof_efi_guid_t_def m
        s0 s1 s2 s3 s4 encode_siglist_def cert_siglist_def sl_total_def add.commute)
qed

lemma cert_siglist_count:
  assumes "13 \<le> length cert"
  shows "(sl_total (cert_siglist cert) - sl_header_size (cert_siglist cert))
           div sl_sig_size (cert_siglist cert) = 1"
proof -
  have "(length cert + 44) div (length cert + 16) = 1"
    using assms by (intro div_nat_eqI) simp_all
  then show ?thesis
    by (simp add: cert_siglist_def sl_total_def sizeof_EFI_SIGNATURE_LIST_def
        sizeof_efi_guid_t_def add.commute)
qed

lemma cert_siglist_entries:
  assumes "13 \<le> length cert" and "length cert + 44 < u32_max"
  shows "region_entries [cert_siglist cert] [] =
           [(efi_guid_x509_cert, \<lparr>item_data = cert, item_len = length cert\<rparr>)]"
proof -
  have d: "drop 44 (encode_siglist (cert_siglist cert)) = cert"
    by (simp add: encode_siglist_def cert_siglist_def efi_guid_x509_cert_def
        sizeof_efi_guid_t_def)
  have s: "sub_u32 (length cert + 16) 16 = length cert"
    using assms(2) by (simp add: sub_u32_le)
  show ?thesis
    using d s
    by (simp add: region_entries_def siglist_entries_def cert_siglist_count [OF assms(1)]
        entry_at_def, simp add: cert_siglist_def sizeof_EFI_SIGNATURE_LIST_def sizeof_efi_guid_t_def)
qed

lemma wf_cert_siglist:
  "length cert + 44 < u32_max \<Longrightarrow> wf_siglist (cert_siglist cert)"
  by (simp add: wf_siglist_def cert_siglist_def sl_total_def efi_guid_x509_cert_def
      sizeof_EFI_SIGNATURE_LIST_def sizeof_efi_guid_t_def)

lemma add_cert_file_source:
  assumes "\<not> load_fails env DB_CERT" and "length (file_bytes env) + 44 < u32_max"
  shows "add_cert_file env ctx filename =
           (0, 0, ctx\<lparr>db :=
              \<lparr>ftype = DB_CERT, path = basename_result env,
                fsize = length (file_bytes env), mapped = file_bytes env,
                datalen = length (file_bytes env) + sizeof_EFI_SIGNATURE_LIST
                            + sizeof_efi_guid_t,
                data = encode_siglist (cert_siglist (file_bytes env))\<rparr> # db ctx\<rparr>)"
proof -
  have m: "(length (file_bytes env) + sizeof_EFI_SIGNATURE_LIST + sizeof_efi_guid_t)
      mod size_max = length (file_bytes env) + 44"
    using assms(2)
    by (simp add: size_max_def u32_max_def sizeof_EFI_SIGNATURE_LIST_def sizeof_efi_guid_t_def)
  show ?thesis
    using assms(1)
    by (simp add: add_cert_file_def add_db_file_def load_fails_def Let_def m
        wrap_cert_layout [OF assms(2)])
       (simp add: sizeof_EFI_SIGNATURE_LIST_def sizeof_efi_guid_t_def)
qed

lemma length_cert_region:
  "length (encode_siglist (cert_siglist cert)) =
     length cert + sizeof_EFI_SIGNATURE_LIST + sizeof_efi_guid_t"
  by (simp add: encode_siglist_def cert_siglist_def efi_guid_x509_cert_def
      sizeof_EFI_SIGNATURE_LIST_def sizeof_efi_guid_t_def)

lemma cert_region_walk:
  assumes "13 \<le> length cert" and "length cert + 44 < u32_max"
  shows "check_lists check (length (encode_siglist (cert_siglist cert)))
            (encode_siglist (cert_siglist cert)) st =
           Some (walk_outcome 0
             (first_match check
                [(efi_guid_x509_cert, \<lparr>item_data = cert, item_len = length cert\<rparr>)] st))"
  using check_lists_region [of "[cert_siglist cert]" "[]" check st]
    wf_cert_siglist [OF assms(2)]
  by (simp add: wf_trailer_def cert_siglist_entries [OF assms])

text \<open>
  C8. \<^verbatim>\<open>add_cert_file\<close> on a certificate of \<open>L\<close> bytes (a DER certificate has more than
  12 bytes, and \<open>L + 44\<close> fits the 32-bit size fields) puts at the head of the allow
  chain a source whose region has \<open>L + 28 + 16\<close> bytes: one list header with the X.509
  type, a total size equal to the length of the region, a header-skip of 0 and an entry
  size of \<open>L + 16\<close>, then one entry of a zero owner and the certificate. The walk over
  it calls the predicate once, on the X.509 type and the \<open>L\<close> bytes of the certificate,
  and ends with nothing left.
\<close>

theorem add_cert_file_one_entry_list:
  assumes "\<not> load_fails env DB_CERT"
    and "13 \<le> length (file_bytes env)"
    and "length (file_bytes env) + 44 < u32_max"
  shows "add_cert_file env ctx filename =
           (0, 0, ctx\<lparr>db :=
              \<lparr>ftype = DB_CERT, path = basename_result env,
                fsize = length (file_bytes env), mapped = file_bytes env,
                datalen = length (file_bytes env) + sizeof_EFI_SIGNATURE_LIST
                            + sizeof_efi_guid_t,
                data = encode_siglist (cert_siglist (file_bytes env))\<rparr> # db ctx\<rparr>)
       \<and> length (encode_siglist (cert_siglist (file_bytes env))) =
           length (file_bytes env) + sizeof_EFI_SIGNATURE_LIST + sizeof_efi_guid_t
       \<and> take sizeof_efi_guid_t (encode_siglist (cert_siglist (file_bytes env))) =
           efi_guid_x509_cert
       \<and> read_u32 16 (encode_siglist (cert_siglist (file_bytes env))) =
           Inr (length (encode_siglist (cert_siglist (file_bytes env))))
       \<and> read_u32 20 (encode_siglist (cert_siglist (file_bytes env))) = Inr 0
       \<and> read_u32 24 (encode_siglist (cert_siglist (file_bytes env))) =
           Inr (length (file_bytes env) + sizeof_efi_guid_t)
       \<and> check_lists check (length (encode_siglist (cert_siglist (file_bytes env))))
            (encode_siglist (cert_siglist (file_bytes env))) st =
           Some (walk_outcome 0
             (first_match check
                [(efi_guid_x509_cert,
                  \<lparr>item_data = file_bytes env, item_len = length (file_bytes env)\<rparr>)] st))"
proof -
  let ?cert = "file_bytes env"
  have wf: "wf_siglist (cert_siglist ?cert)"
    by (rule wf_cert_siglist [OF assms(3)])
  have tot: "sl_total (cert_siglist ?cert) = length (encode_siglist (cert_siglist ?cert))"
    using wf by (simp add: length_encode_siglist wf_siglist_def)
  have ty: "take sizeof_efi_guid_t (encode_siglist (cert_siglist ?cert)) = efi_guid_x509_cert"
    by (simp add: encode_siglist_def cert_siglist_def efi_guid_x509_cert_def
        sizeof_efi_guid_t_def)
  have hdr: "read_u32 16 (encode_siglist (cert_siglist ?cert)) =
        Inr (length (encode_siglist (cert_siglist ?cert)))"
      "read_u32 20 (encode_siglist (cert_siglist ?cert)) = Inr 0"
      "read_u32 24 (encode_siglist (cert_siglist ?cert)) = Inr (length ?cert + sizeof_efi_guid_t)"
    using read_header [OF wf, of "[]"] by (simp_all add: tot, simp_all add: cert_siglist_def)
  note load = add_cert_file_source [OF assms(1,3), of ctx filename]
  note len = length_cert_region [of ?cert]
  note walk = cert_region_walk [OF assms(2,3), of check st]
  show ?thesis
    by (intro conjI) (rule load len ty hdr walk)+
qed

theorem add_cert_file_one_entry_list_witness:
  "add_cert_file (ok_env small_cert) empty_ctx ''cert'' =
     (0, 0, empty_ctx\<lparr>db :=
        [\<lparr>ftype = DB_CERT, path = ''db'', fsize = 13, mapped = small_cert, datalen = 57,
          data = encode_siglist (cert_siglist small_cert)\<rparr>]\<rparr>)
   \<and> check_lists record_entry 57 (encode_siglist (cert_siglist small_cert)) [] =
       Some (Inr (Exhausted 0,
         [(efi_guid_x509_cert, \<lparr>item_data = small_cert, item_len = 13\<rparr>)]))"
proof -
  have l: "length small_cert = 13"
    by (simp add: small_cert_def)
  have e: "file_bytes (ok_env small_cert) = small_cert"
    "basename_result (ok_env small_cert) = ''db''"
    "\<not> load_fails (ok_env small_cert) DB_CERT"
    by (simp_all add: ok_env_def load_fails_def)
  have h: "13 \<le> length (file_bytes (ok_env small_cert))"
    "length (file_bytes (ok_env small_cert)) + 44 < u32_max"
    by (simp_all add: e l u32_max_def)
  show ?thesis
    using add_cert_file_one_entry_list [OF e(3) h, of empty_ctx "''cert''" record_entry "[]"]
    unfolding e l
    by (auto simp: sizeof_EFI_SIGNATURE_LIST_def sizeof_efi_guid_t_def walk_outcome_def
        record_entry_def empty_ctx_def)
qed

subsection \<open>The usable region of a file and of a firmware variable\<close>

lemma add_db_file_regions:
  assumes "\<not> load_fails env type" and "type \<noteq> DB_CERT"
    and "4 \<le> length (file_bytes env)" and "length (file_bytes env) < size_max"
  shows "\<exists>d. add_db_file env ctx which dbfile type =
           (0, 0, if which = DB then ctx\<lparr>db := d # db ctx\<rparr> else ctx\<lparr>dbx := d # dbx ctx\<rparr>)
         \<and> mapped d = file_bytes env \<and> fsize d = length (file_bytes env)
         \<and> data d = (if type = DB_EFIVAR then drop 4 (mapped d) else mapped d)
         \<and> datalen d = (if type = DB_EFIVAR then fsize d - 4 else fsize d)
         \<and> datalen d = length (data d)"
proof -
  have h: "length (file_bytes env) + size_max - 4 = (length (file_bytes env) - 4) + size_max"
    using assms(3) by simp
  have m: "(length (file_bytes env) + size_max - 4) mod size_max = length (file_bytes env) - 4"
    unfolding h using assms(4) by simp
  show ?thesis
    using assms(1,2)
    by (cases type) (auto simp: add_db_file_def load_fails_def Let_def m)
qed

text \<open>
  C7. For a file of at least 4 bytes the lemma above gives the two regions: the whole
  buffer for a plain file, the buffer without its first 4 bytes for a firmware variable.
  A firmware variable of 2 bytes is loaded all the same: \<^verbatim>\<open>add_db_file\<close> returns 0 and
  records a region of \<open>2 - 4\<close> bytes taken modulo \<open>2^64\<close>, starting past the buffer,
  and the walk over it reads out of bounds.
\<close>

theorem add_db_file_short_efivar:
  "add_db_file (ok_env two_byte_var) empty_ctx DB ''var'' DB_EFIVAR =
     (0, 0, empty_ctx\<lparr>db := [\<lparr>ftype = DB_EFIVAR, path = ''db'', fsize = 2,
         mapped = two_byte_var, datalen = 18446744073709551614, data = []\<rparr>]\<rparr>)
   \<and> check_db DB
        (snd (snd (add_db_file (ok_env two_byte_var) empty_ctx DB ''var'' DB_EFIVAR)))
        check match st = Some (Inl OutOfBounds)"
proof -
  have l: "add_db_file (ok_env two_byte_var) empty_ctx DB ''var'' DB_EFIVAR =
     (0, 0, empty_ctx\<lparr>db := [\<lparr>ftype = DB_EFIVAR, path = ''db'', fsize = 2,
         mapped = two_byte_var, datalen = 18446744073709551614, data = []\<rparr>]\<rparr>)"
    by (simp add: add_db_file_def ok_env_def two_byte_var_def Let_def size_max_def
        empty_ctx_def)
  have w: "check_lists check 18446744073709551614 [] st = Some (Inl OutOfBounds)"
    by (subst check_lists.simps) (simp add: read_u32_def)
  show ?thesis
    by (simp add: l check_db_def w)
qed

subsection \<open>Loading the system databases\<close>

lemma check_db_empty:
  "db ctx = [] \<Longrightarrow> dbx ctx = [] \<Longrightarrow>
   check_db which ctx check match st = Some (Inr (NOT_FOUND, None, st))"
  by (simp add: check_db_def)

lemma add_db_file_enoent:
  "calloc_dblist env = None \<Longrightarrow> open_dbfile env = Some ENOENT \<Longrightarrow>
   add_db_file env ctx which dbfile type = (- 1, ENOENT, ctx)"
  by (simp add: add_db_file_def)

lemma add_db_file_other_chain:
  "add_db_file env ctx DB dbfile type = (rc, e, ctx') \<Longrightarrow> dbx ctx' = dbx ctx"
  "add_db_file env ctx DBX dbfile type = (rc, e, ctx') \<Longrightarrow> db ctx' = db ctx"
  by (auto simp: add_db_file_def Let_def split: option.splits db_f_type.splits if_splits)

text \<open>
  C9. With \<open>r1\<close> to \<open>r4\<close> the results of loading \<^verbatim>\<open>db\<close> and \<^verbatim>\<open>MokListRT\<close> into the
  allow chain and \<^verbatim>\<open>dbx\<close> and \<^verbatim>\<open>MokListXRT\<close> into the deny chain, each as a firmware
  variable and each in the context the one before left: disabled, \<^verbatim>\<open>init_cert_db\<close> returns
  the context as it was and prints nothing, and a search in an empty database answers
  \<open>NOT_FOUND\<close>; enabled, the first load that fails with an errno other than \<^verbatim>\<open>ENOENT\<close>
  ends the process with status 1 after a line naming its path; a load that fails to
  open with \<^verbatim>\<open>ENOENT\<close> is not fatal; when no load is fatal the function returns the
  context of the last load; the warning for the allow chain is printed when that chain
  is empty after its two loads, the one for the deny chain when that chain is empty
  after its two; and the loads of one chain leave the other chain alone.
\<close>

theorem init_cert_db_system_dbs:
  assumes r1: "r1 = add_db_file (sys DB_PATH) ctx DB DB_PATH DB_EFIVAR"
    and r2: "r2 = add_db_file (sys MOK_PATH) (snd (snd r1)) DB MOK_PATH DB_EFIVAR"
    and r3: "r3 = add_db_file (sys DBX_PATH) (snd (snd r2)) DBX DBX_PATH DB_EFIVAR"
    and r4: "r4 = add_db_file (sys MOKX_PATH) (snd (snd r3)) DBX MOKX_PATH DB_EFIVAR"
    and w1: "w1 = (if db (snd (snd r2)) = [] then [No_key_database_available] else [])"
    and w2: "w2 = (if dbx (snd (snd r4)) = [] then [No_key_recovation_database_available]
                   else [])"
  shows "init_cert_db sys ctx False = Return ctx []
       \<and> (db ctx = [] \<and> dbx ctx = [] \<longrightarrow>
            check_db which ctx check match st = Some (Inr (NOT_FOUND, None, st)))
       \<and> (fatal r1 \<longrightarrow> init_cert_db sys ctx True =
            Exit 1 [Could_not_add_key_database DB_PATH (fst (snd r1))])
       \<and> (\<not> fatal r1 \<and> fatal r2 \<longrightarrow> init_cert_db sys ctx True =
            Exit 1 [Could_not_add_key_database MOK_PATH (fst (snd r2))])
       \<and> (\<not> fatal r1 \<and> \<not> fatal r2 \<and> fatal r3 \<longrightarrow> init_cert_db sys ctx True =
            Exit 1 (w1 @ [Could_not_add_revocation_database DBX_PATH (fst (snd r3))]))
       \<and> (\<not> fatal r1 \<and> \<not> fatal r2 \<and> \<not> fatal r3 \<and> fatal r4 \<longrightarrow>
            init_cert_db sys ctx True =
            Exit 1 (w1 @ [Could_not_add_key_database MOKX_PATH (fst (snd r4))]))
       \<and> (\<not> fatal r1 \<and> \<not> fatal r2 \<and> \<not> fatal r3 \<and> \<not> fatal r4 \<longrightarrow>
            init_cert_db sys ctx True = Return (snd (snd r4)) (w1 @ w2))
       \<and> (calloc_dblist (sys p) = None \<and> open_dbfile (sys p) = Some ENOENT \<longrightarrow>
            \<not> fatal (add_db_file (sys p) c which' p DB_EFIVAR))
       \<and> dbx (snd (snd r2)) = dbx ctx \<and> db (snd (snd r4)) = db (snd (snd r2))"
proof -
  obtain rc1 e1 c1 where p1: "r1 = (rc1, e1, c1)" by (cases r1)
  obtain rc2 e2 c2 where p2: "r2 = (rc2, e2, c2)" by (cases r2)
  obtain rc3 e3 c3 where p3: "r3 = (rc3, e3, c3)" by (cases r3)
  obtain rc4 e4 c4 where p4: "r4 = (rc4, e4, c4)" by (cases r4)
  have q1: "add_db_file (sys DB_PATH) ctx DB DB_PATH DB_EFIVAR = (rc1, e1, c1)"
    using r1 p1 by simp
  have q2: "add_db_file (sys MOK_PATH) c1 DB MOK_PATH DB_EFIVAR = (rc2, e2, c2)"
    using r2 p1 p2 by simp
  have q3: "add_db_file (sys DBX_PATH) c2 DBX DBX_PATH DB_EFIVAR = (rc3, e3, c3)"
    using r3 p2 p3 by simp
  have q4: "add_db_file (sys MOKX_PATH) c3 DBX MOKX_PATH DB_EFIVAR = (rc4, e4, c4)"
    using r4 p3 p4 by simp
  have chains: "dbx c2 = dbx ctx" "db c4 = db c2"
    using add_db_file_other_chain(1) [OF q1] add_db_file_other_chain(1) [OF q2]
      add_db_file_other_chain(2) [OF q3] add_db_file_other_chain(2) [OF q4]
    by simp_all
  have tol: "calloc_dblist (sys p) = None \<and> open_dbfile (sys p) = Some ENOENT \<longrightarrow>
            \<not> fatal (add_db_file (sys p) c which' p DB_EFIVAR)"
    by (simp add: add_db_file_enoent fatal_def)
  have off: "init_cert_db sys ctx False = Return ctx []"
    by (simp add: init_cert_db_def)
  have on: "init_cert_db sys ctx True =
      (if fatal r1 then Exit 1 [Could_not_add_key_database DB_PATH e1]
       else if fatal r2 then Exit 1 [Could_not_add_key_database MOK_PATH e2]
       else if fatal r3 then Exit 1 (w1 @ [Could_not_add_revocation_database DBX_PATH e3])
       else if fatal r4 then Exit 1 (w1 @ [Could_not_add_key_database MOKX_PATH e4])
       else Return c4 (w1 @ w2))"
    by (simp add: init_cert_db_def q1 q2 q3 q4 p1 p2 p3 p4 fatal_def w1 w2 Let_def)
  show ?thesis
    using off on chains tol by (simp add: p1 p2 p3 p4 check_db_empty)
qed


lemma length_sha256_region: "length (region [sha256_list] []) = 76"
  by (simp add: encode_siglist_def sha256_list_def efi_guid_sha256_def)

lemma paths_distinct:
  "MOK_PATH \<noteq> DB_PATH" "DBX_PATH \<noteq> DB_PATH" "MOKX_PATH \<noteq> DB_PATH"
  by (simp_all add: DB_PATH_def MOK_PATH_def DBX_PATH_def MOKX_PATH_def)

lemma only_db_sys_loads:
  "add_db_file (only_db_sys DB_PATH) empty_ctx DB DB_PATH DB_EFIVAR =
     (0, 0, empty_ctx\<lparr>db := [\<lparr>ftype = DB_EFIVAR, path = ''db'', fsize = 80,
        mapped = sha256_var, datalen = 76, data = region [sha256_list] []\<rparr>]\<rparr>)"
  "add_db_file (only_db_sys MOK_PATH) c DB MOK_PATH DB_EFIVAR = (- 1, ENOENT, c)"
  "add_db_file (only_db_sys DBX_PATH) c DBX DBX_PATH DB_EFIVAR = (- 1, ENOENT, c)"
  "add_db_file (only_db_sys MOKX_PATH) c DBX MOKX_PATH DB_EFIVAR = (- 1, ENOENT, c)"
  "add_db_file (denied_sys DB_PATH) c DB DB_PATH DB_EFIVAR = (- 1, 13, c)"
proof -
  have l: "length sha256_var = 80"
    by (simp add: sha256_var_def length_sha256_region del: region.simps)
  have d: "drop 4 sha256_var = region [sha256_list] []"
    by (simp add: sha256_var_def del: region.simps)
  show "add_db_file (only_db_sys DB_PATH) empty_ctx DB DB_PATH DB_EFIVAR =
     (0, 0, empty_ctx\<lparr>db := [\<lparr>ftype = DB_EFIVAR, path = ''db'', fsize = 80,
        mapped = sha256_var, datalen = 76, data = region [sha256_list] []\<rparr>]\<rparr>)"
    by (simp add: only_db_sys_def add_db_file_def ok_env_def Let_def l d size_max_def
        empty_ctx_def del: region.simps)
  show "add_db_file (only_db_sys MOK_PATH) c DB MOK_PATH DB_EFIVAR = (- 1, ENOENT, c)"
    "add_db_file (only_db_sys DBX_PATH) c DBX DBX_PATH DB_EFIVAR = (- 1, ENOENT, c)"
    "add_db_file (only_db_sys MOKX_PATH) c DBX MOKX_PATH DB_EFIVAR = (- 1, ENOENT, c)"
    "add_db_file (denied_sys DB_PATH) c DB DB_PATH DB_EFIVAR = (- 1, 13, c)"
    by (simp_all add: only_db_sys_def denied_sys_def paths_distinct add_db_file_def
        open_fails_env_def ok_env_def)
qed

lemma empty_ctx_chains: "db empty_ctx = []" "dbx empty_ctx = []"
  by (simp_all add: empty_ctx_def)

theorem init_cert_db_system_dbs_witness:
  "init_cert_db only_db_sys empty_ctx True =
     Return (empty_ctx\<lparr>db := [\<lparr>ftype = DB_EFIVAR, path = ''db'', fsize = 80,
        mapped = sha256_var, datalen = 76, data = region [sha256_list] []\<rparr>]\<rparr>)
       [No_key_recovation_database_available]
   \<and> init_cert_db denied_sys empty_ctx True = Exit 1 [Could_not_add_key_database DB_PATH 13]
   \<and> init_cert_db only_db_sys empty_ctx False = Return empty_ctx []"
  using init_cert_db_system_dbs
      [where sys = only_db_sys and ctx = empty_ctx and which = DB and check = record_entry
         and match = False and st = "[]" and p = DB_PATH and c = empty_ctx and which' = DB,
       OF refl refl refl refl refl refl]
    init_cert_db_system_dbs
      [where sys = denied_sys and ctx = empty_ctx and which = DB and check = record_entry
         and match = False and st = "[]" and p = DB_PATH and c = empty_ctx and which' = DB,
       OF refl refl refl refl refl refl]
  by (simp add: only_db_sys_loads fatal_def ENOENT_def empty_ctx_chains del: region.simps)

subsection \<open>The validity window and the evaluation time\<close>

lemma Max_insert_max:
  fixes a b :: int
  shows "finite A \<Longrightarrow> Max (insert (max a b) A) = Max (insert a (insert b A))"
  by (cases "A = {}") (simp_all add: max.assoc)

lemma Min_insert_min:
  fixes a b :: int
  shows "finite A \<Longrightarrow> Min (insert (min a b) A) = Min (insert a (insert b A))"
  by (cases "A = {}") (simp_all add: min.assoc)

lemma fold_cert_times_step:
  "fold (cert_times_step lib certs) js (a, b) =
     (Max (insert a ((\<lambda>i. fst (CERT_GetCertTimes lib (certs i) (0, 0x7fffffffffff))) ` set js)),
      Min (insert b ((\<lambda>i. snd (CERT_GetCertTimes lib (certs i) (0, 0x7fffffffffff))) ` set js)))"
proof (induction js arbitrary: a b)
  case Nil
  then show ?case by simp
next
  case (Cons i js)
  obtain nb na where t: "CERT_GetCertTimes lib (certs i) (0, 0x7fffffffffff) = (nb, na)"
    by (cases "CERT_GetCertTimes lib (certs i) (0, 0x7fffffffffff)")
  have s: "cert_times_step lib certs i (a, b) = (max a nb, min b na)"
    by (simp add: cert_times_step_def t max_def min_def)
  show ?case
    by (simp add: s Cons.IH t Max_insert_max Min_insert_min)
qed

lemma certs_window_no_periods:
  "embedded_periods lib cinfo = [] \<Longrightarrow> certs_window lib cinfo = (0, PRTime_MAX)"
  by (simp add: certs_window_def)

lemma find_cert_times_window:
  "find_cert_times lib cinfo (0, PRTime_MAX) = certs_window lib cinfo"
proof (cases "is_signed_data cinfo \<and> CERT_GetDefaultCertDB lib")
  case False
  then have "embedded_periods lib cinfo = []"
    by (auto simp: embedded_periods_def)
  moreover from False have "find_cert_times lib cinfo (0, PRTime_MAX) = (0, PRTime_MAX)"
    by (auto simp: find_cert_times_def)
  ultimately show ?thesis
    by (simp add: certs_window_no_periods)
next
  case True
  show ?thesis
  proof (cases "CERT_ImportCerts lib (rawCerts cinfo)")
    case None
    with True have "embedded_periods lib cinfo = []"
      by (simp add: embedded_periods_def)
    moreover from True None have "find_cert_times lib cinfo (0, PRTime_MAX) = (0, PRTime_MAX)"
      by (simp add: find_cert_times_def)
    ultimately show ?thesis
      by (simp add: certs_window_no_periods)
  next
    case (Some certs)
    let ?f = "\<lambda>i. CERT_GetCertTimes lib (certs i) (0, 0x7fffffffffff)"
    have p: "embedded_periods lib cinfo = map ?f [0..<length (rawCerts cinfo)]"
      using True Some by (simp add: embedded_periods_def)
    have i: "fst ` set (map ?f js) = (\<lambda>i. fst (?f i)) ` set js"
      "snd ` set (map ?f js) = (\<lambda>i. snd (?f i)) ` set js" for js
      by (simp_all add: image_image)
    have "find_cert_times lib cinfo (0, PRTime_MAX) =
        fold (cert_times_step lib certs) [0..<length (rawCerts cinfo)] (0, PRTime_MAX)"
      using True Some by (simp add: find_cert_times_def)
    then show ?thesis
      unfolding certs_window_def p i fold_cert_times_step .
  qed
qed

lemma certs_window_bounds:
  "0 \<le> fst (certs_window lib cinfo)" "snd (certs_window lib cinfo) \<le> PRTime_MAX"
  by (simp_all add: certs_window_def)

lemma signing_window_eq:
  "signing_window lib cinfo =
     (case embedded_signing_time lib cinfo of
        None \<Rightarrow> certs_window lib cinfo
      | Some t \<Rightarrow> (max (fst (certs_window lib cinfo)) t, min (snd (certs_window lib cinfo)) t))"
proof -
  obtain nb na where w: "certs_window lib cinfo = (nb, na)"
    by (cases "certs_window lib cinfo")
  with certs_window_bounds [of lib cinfo] have b: "0 \<le> nb" "na \<le> PRTime_MAX" by simp_all
  show ?thesis
    using b
    by (auto simp: signing_window_def find_cert_times_window w embedded_signing_time_def
        Let_def max_def min_def split: option.splits)
qed

lemma signing_window_nonneg: "0 \<le> fst (signing_window lib cinfo)"
  using certs_window_bounds(1) [of lib cinfo]
  by (simp add: signing_window_eq max_def split: option.splits)

lemma c_div_2_near:
  assumes "0 \<le> e"
  shows "\<bar>2 * (c_div e 2 + c_div l 2) - (e + l)\<bar> \<le> 2"
  using assms by (simp add: c_div_def) presburger

lemma verify_with_reaches:
  assumes "reaches_verify lib ctx_null cinfo sig content digest cert"
  shows "verify_with lib ctx_null cinfo atTime out sig =
     (case SEC_PKCS7VerifyDetachedSignatureAtTime lib cinfo digest atTime of
        None \<Rightarrow> Inr (FOUND, out)
      | Some e \<Rightarrow> Inr (NOT_FOUND, out @ [Verify_error e]))"
  using assms by (simp add: reaches_verify_def verify_with_def Let_def)

lemma check_cert_x509:
  assumes "SEC_PKCS7DecodeItem lib 0 pkcs7sig = Some cinfo"
    and "SEC_PKCS7DecodeItem lib 1 pkcs7sig = Some cinfo2"
  shows "check_cert lib ctx_null pkcs7sig out sig efi_guid_x509_cert =
     verify_with lib ctx_null cinfo2
       (c_div (fst (signing_window lib cinfo)) 2 + c_div (snd (signing_window lib cinfo)) 2)
       (out @ window_diag (signing_window lib cinfo)) sig"
  using assms
  by (cases "signing_window lib cinfo") (simp add: check_cert_def window_diag_def Let_def)

text \<open>
  C5, as the code has it. The window starts at \<open>[0, +infinity]\<close> and is narrowed to
  its intersection with the validity periods of the embedded certificates. A signing
  time \<open>t\<close> that decodes then moves each bound on its own: the lower bound to the
  larger of itself and \<open>t\<close>, the upper bound to the smaller of itself and \<open>t\<close>; both
  become \<open>t\<close> when \<open>t\<close> lies within the window, and the window is inverted when it
  does not. An inverted window adds one printed line and nothing else. When every step
  up to the verification succeeds, the verifier is asked at the time
  \<open>earlyNow / 2 + lateNow / 2\<close>, each half truncated, and its answer is the result;
  twice that time differs from \<open>earlyNow + lateNow\<close> by at most 2.
\<close>

theorem check_cert_evaluation_time:
  assumes "SEC_PKCS7DecodeItem lib 0 pkcs7sig = Some cinfo"
    and "SEC_PKCS7DecodeItem lib 1 pkcs7sig = Some cinfo2"
    and "reaches_verify lib ctx_null cinfo2 sig content digest cert"
    and "w = signing_window lib cinfo"
  shows "w = (case embedded_signing_time lib cinfo of
                None \<Rightarrow> certs_window lib cinfo
              | Some t \<Rightarrow> (max (fst (certs_window lib cinfo)) t,
                          min (snd (certs_window lib cinfo)) t))
       \<and> (embedded_signing_time lib cinfo = Some t \<and> fst (certs_window lib cinfo) \<le> t
            \<and> t \<le> snd (certs_window lib cinfo) \<longrightarrow> w = (t, t))
       \<and> check_cert lib ctx_null pkcs7sig out sig efi_guid_x509_cert =
           (case SEC_PKCS7VerifyDetachedSignatureAtTime lib cinfo2 digest
                   (c_div (fst w) 2 + c_div (snd w) 2) of
              None \<Rightarrow> Inr (FOUND, out @ window_diag w)
            | Some e \<Rightarrow> Inr (NOT_FOUND, out @ window_diag w @ [Verify_error e]))
       \<and> \<bar>2 * (c_div (fst w) 2 + c_div (snd w) 2) - (fst w + snd w)\<bar> \<le> 2"
proof -
  have a: "w = (case embedded_signing_time lib cinfo of
                None \<Rightarrow> certs_window lib cinfo
              | Some t \<Rightarrow> (max (fst (certs_window lib cinfo)) t,
                          min (snd (certs_window lib cinfo)) t))"
    unfolding assms(4) by (rule signing_window_eq)
  have b: "embedded_signing_time lib cinfo = Some t \<and> fst (certs_window lib cinfo) \<le> t
            \<and> t \<le> snd (certs_window lib cinfo) \<longrightarrow> w = (t, t)"
    unfolding a by (simp add: max_def min_def)
  have c: "check_cert lib ctx_null pkcs7sig out sig efi_guid_x509_cert =
           (case SEC_PKCS7VerifyDetachedSignatureAtTime lib cinfo2 digest
                   (c_div (fst w) 2 + c_div (snd w) 2) of
              None \<Rightarrow> Inr (FOUND, out @ window_diag w)
            | Some e \<Rightarrow> Inr (NOT_FOUND, out @ window_diag w @ [Verify_error e]))"
    unfolding assms(4) check_cert_x509 [OF assms(1,2)] verify_with_reaches [OF assms(3)]
    by (simp split: option.splits)
  have d: "\<bar>2 * (c_div (fst w) 2 + c_div (snd w) 2) - (fst w + snd w)\<bar> \<le> 2"
    unfolding assms(4) by (rule c_div_2_near [OF signing_window_nonneg])
  show ?thesis
    by (intro conjI) (rule a b c d)+
qed

lemma example_nss_fields:
  "SEC_PKCS7DecodeItem (example_nss t) n p = Some example_cinfo"
  "CERT_GetDefaultCertDB (example_nss t)"
  "CERT_ImportCerts (example_nss t) raw = Some (\<lambda>i. i)"
  "CERT_GetCertTimes (example_nss t) c tm = (10, 20)"
  "SEC_PKCS7GetSigningTime (example_nss t) ci = Some [23, 0]"
  "DER_DecodeTimeChoice (example_nss t) e = Some t"
  "SEC_PKCS7VerifyDetachedSignatureAtTime (example_nss t) ci d a = None"
  by (simp_all add: example_nss_def)

lemma example_reaches_verify:
  "reaches_verify (example_nss t) False example_cinfo sig
     \<lparr>item_data = [48, 3, 1, 2, 3], item_len = 5\<rparr> (replicate 32 1) 0"
  by (simp add: reaches_verify_def example_nss_def example_cinfo_def)

lemma example_windows:
  "certs_window (example_nss t) example_cinfo = (10, 20)"
  "embedded_signing_time (example_nss t) example_cinfo = Some t"
  by (simp_all add: certs_window_def embedded_periods_def embedded_signing_time_def
      example_nss_fields example_cinfo_def PRTime_MAX_def)

theorem check_cert_evaluation_time_witness:
  "signing_window (example_nss 15) example_cinfo = (15, 15)
   \<and> check_cert (example_nss 15) False example_pkcs7sig [] small_cert_item efi_guid_x509_cert
       = Inr (FOUND, [])"
  using check_cert_evaluation_time
    [OF example_nss_fields(1) [of 15 0 example_pkcs7sig]
        example_nss_fields(1) [of 15 1 example_pkcs7sig]
        example_reaches_verify [of 15 small_cert_item] refl,
     where out = "[]" and t = 15]
  by (simp add: example_windows example_nss_fields window_diag_def)

text \<open>
  C5, as the claim has it, fails. With certificates valid from 10 to 20 and a signing
  time of 30, outside that window, the code raises the lower bound to 30 and asks the
  verifier at 25, where the claim leaves the window at \<open>[10, 20]\<close> with midpoint 15.
  With a signing time of 15 the window is \<open>[15, 15]\<close> and the verifier is asked at 14,
  not at the midpoint 15.
\<close>

theorem signing_window_counterexample:
  "signing_window (example_nss 30) example_cinfo = (30, 20)
   \<and> spec_signing_window (example_nss 30) example_cinfo = (10, 20)
   \<and> check_cert (echo_time_nss 30) False example_pkcs7sig [] small_cert_item
         efi_guid_x509_cert
       = Inr (NOT_FOUND, [Impossible_time_constraint 0 0, Verify_error 25])
   \<and> midpoint (spec_signing_window (example_nss 30) example_cinfo) = 15
   \<and> signing_window (example_nss 15) example_cinfo = (15, 15)
   \<and> check_cert (echo_time_nss 15) False example_pkcs7sig [] small_cert_item
         efi_guid_x509_cert
       = Inr (NOT_FOUND, [Verify_error 14])
   \<and> midpoint (signing_window (example_nss 15) example_cinfo) = 15"
proof -
  have w30: "signing_window (example_nss 30) example_cinfo = (30, 20)"
    and w15: "signing_window (example_nss 15) example_cinfo = (15, 15)"
    by (simp_all add: signing_window_eq example_windows)
  have e: "signing_window (echo_time_nss t) example_cinfo
      = signing_window (example_nss t) example_cinfo" for t
  proof -
    have p: "embedded_periods (echo_time_nss t) example_cinfo
        = embedded_periods (example_nss t) example_cinfo"
      by (simp add: embedded_periods_def echo_time_nss_def example_nss_def example_cinfo_def)
    have s: "embedded_signing_time (echo_time_nss t) example_cinfo
        = embedded_signing_time (example_nss t) example_cinfo"
      by (simp add: embedded_signing_time_def echo_time_nss_def example_nss_def)
    show ?thesis
      unfolding signing_window_eq certs_window_def p s ..
  qed
  have s30: "spec_signing_window (example_nss 30) example_cinfo = (10, 20)"
    by (simp add: spec_signing_window_def example_windows)
  have d: "SEC_PKCS7DecodeItem (echo_time_nss t) n p = Some example_cinfo" for t n p
    by (simp add: echo_time_nss_def example_nss_def)
  have v: "verify_with (echo_time_nss t) False example_cinfo atTime out sig
      = Inr (NOT_FOUND, out @ [Verify_error atTime])" for t atTime out sig
    by (simp add: verify_with_def echo_time_nss_def example_nss_def example_cinfo_def)
  show ?thesis
    by (simp add: w30 w15 s30 midpoint_def check_cert_x509 [OF d d] v e window_diag_def
        c_div_def)
qed

subsection \<open>Failures inside the certificate predicate\<close>

lemma check_cert_other_type:
  "sigtype \<noteq> efi_guid_x509_cert \<Longrightarrow>
   check_cert lib ctx_null pkcs7sig out sig sigtype = Inr (NOT_FOUND, out)"
  by (simp add: check_cert_def)

lemma verify_with_found:
  "verify_with lib ctx_null cinfo atTime out sig = Inr (FOUND, out') \<Longrightarrow>
   \<exists>digest. SEC_PKCS7VerifyDetachedSignatureAtTime lib cinfo digest atTime = None"
  by (auto simp: verify_with_def Let_def split: if_splits option.splits sum.splits)

lemma check_cert_found_verified:
  assumes "check_cert lib ctx_null pkcs7sig out sig sigtype = Inr (FOUND, out')"
  shows "sigtype = efi_guid_x509_cert \<and>
         (\<exists>cinfo digest atTime. SEC_PKCS7DecodeItem lib 1 pkcs7sig = Some cinfo \<and>
            SEC_PKCS7VerifyDetachedSignatureAtTime lib cinfo digest atTime = None)"
  using assms
  by (auto simp: check_cert_def Let_def split: if_splits option.splits prod.splits
      dest!: verify_with_found)

lemma verify_with_no_fault:
  "PK11_CreateDigestContext lib \<Longrightarrow> content_data cinfo \<noteq> None \<Longrightarrow>
   \<exists>s out'. verify_with lib ctx_null cinfo atTime out sig = Inr (s, out')"
  by (auto simp: verify_with_def Let_def split: option.splits sum.splits)

lemma cert_file_ctx_db:
  "db cert_file_ctx =
     [\<lparr>ftype = DB_CERT, path = ''db'', fsize = 13, mapped = small_cert, datalen = 57,
       data = encode_siglist (cert_siglist small_cert)\<rparr>]"
proof -
  have e: "file_bytes (ok_env small_cert) = small_cert"
    "basename_result (ok_env small_cert) = ''db''"
    "\<not> load_fails (ok_env small_cert) DB_CERT" "length small_cert = 13"
    by (simp_all add: ok_env_def load_fails_def small_cert_def)
  have h: "length (file_bytes (ok_env small_cert)) + 44 < u32_max"
    by (simp add: e u32_max_def)
  show ?thesis
    unfolding cert_file_ctx_def add_cert_file_source [OF e(3) h]
    by (simp add: e empty_ctx_def sizeof_EFI_SIGNATURE_LIST_def sizeof_efi_guid_t_def)
qed

text \<open>
  C6. For a type other than X.509 the answer is \<open>NOT_FOUND\<close> at once, \<open>FOUND\<close> is
  answered only after a successful verification, and no fault arises when the digest
  context is created and the content pointer is not NULL (the three lemmas above). But
  when \<^verbatim>\<open>PK11_CreateDigestContext\<close> returns NULL, line 404 tests \<^verbatim>\<open>ctx\<close> instead of
  \<^verbatim>\<open>pk11ctx\<close>, the NULL context reaches \<^verbatim>\<open>PK11_DigestBegin\<close>, and the predicate and the
  search around it end in a fault instead of \<open>NOT_FOUND\<close>.
\<close>

theorem check_cert_no_digest_context:
  "check_cert no_digest_context_nss False example_pkcs7sig [] small_cert_item
     efi_guid_x509_cert = Inl NullDeref
   \<and> check_db_cert no_digest_context_nss DB cert_file_ctx example_pkcs7sig True
       = Some (Inl NullDeref)"
proof -
  have d: "SEC_PKCS7DecodeItem no_digest_context_nss n p = Some example_cinfo" for n p
    by (simp add: no_digest_context_nss_def example_nss_def)
  have v: "verify_with no_digest_context_nss False example_cinfo atTime out sig
      = Inl NullDeref" for atTime out sig
    by (simp add: verify_with_def no_digest_context_nss_def example_nss_def)
  have c: "check_cert no_digest_context_nss False example_pkcs7sig out sig
      efi_guid_x509_cert = Inl NullDeref" for out sig
    by (simp add: check_cert_x509 [OF d d] v)
  have l: "length small_cert = 13"
    by (simp add: small_cert_def)
  have len: "length (encode_siglist (cert_siglist small_cert)) = 57"
    by (simp add: length_cert_region l sizeof_EFI_SIGNATURE_LIST_def sizeof_efi_guid_t_def)
  have w: "check_lists (check_cert no_digest_context_nss False example_pkcs7sig) 57
      (encode_siglist (cert_siglist small_cert)) [] = Some (Inl NullDeref)"
    using cert_region_walk [of small_cert
        "check_cert no_digest_context_nss False example_pkcs7sig" "[]"]
    by (simp add: l len u32_max_def c walk_outcome_def)
  show ?thesis
    by (simp add: c check_db_cert_def check_db_def cert_file_ctx_db w)
qed

end
